theory Spec2Isabelle
  imports Complex_Main
begin

section \<open>Bayesian regression tutorial: the data model\<close>

text \<open>
  The program is the notebook \<^verbatim>\<open>tutorial/source/bayesian_regression.ipynb\<close>: a sequence
  of code cells over numpy, torch and pyro. Numbers are modelled as exact reals (the
  rounding of float64 and float32 arithmetic is outside the model), a one-dimensional
  array as the list of its entries and a two-dimensional array as the list of its rows.
  A two-dimensional array with no rows does not carry its number of columns, which is
  why the statements about shapes are made for at least one row.

  Every exception the code can raise is a value of \<open>error\<close>; an operation that may raise
  returns \<open>error + 'a\<close> with \<open>Inl\<close> the exception.
\<close>

datatype error = AssertionError | ValueError | RuntimeError | TypeError | IndexError

type_synonym vector = "real list"
type_synonym matrix = "real list list"

text \<open>A torch tensor of one or of two dimensions.\<close>

datatype tensor = Vec vector | Mat matrix

subsection \<open>The libraries\<close>

text \<open>
  What the notebook takes from numpy, torch and pyro without defining it is a record of
  functions the program is run against; the theorems hold for every such record.

  The global random generators of numpy and torch are a state \<open>'g\<close> that every draw
  reads and advances:
  \<^item> \<open>np_random_rand N p\<close> is \<^verbatim>\<open>np.random.rand(N, p)\<close>;
  \<^item> \<open>np_random_normal loc scale size\<close> is \<^verbatim>\<open>np.random.normal(loc, scale, size=size)\<close>;
  \<^item> \<open>torch_randn\<close> is one standard normal draw of torch's generator;
  \<^item> \<open>nn_init_uniform fan_in\<close> is one entry of the initial value
    \<^verbatim>\<open>nn.Linear.reset_parameters\<close> draws for a layer with \<open>fan_in\<close> inputs.

  The Adam optimizer is a state \<open>'o\<close>: \<open>adam_init lr\<close> is a new optimizer,
  \<open>adam_update opt name k x g\<close> the new value of entry \<open>k\<close> (row-major) of the parameter
  \<open>name\<close> whose value is \<open>x\<close> and whose gradient is \<open>g\<close>, and \<open>adam_advance opt grads\<close>
  the optimizer after a step with the gradients \<open>grads\<close>.

  A site of a pyro trace is a \<open>site\<close>. \<open>trace_elbo model_trace guide_trace\<close> is the
  loss \<^verbatim>\<open>Trace_ELBO\<close> estimates from the two traces of one step, and
  \<open>trace_elbo_grad model_trace guide_trace name k\<close> its derivative in entry \<open>k\<close> of the
  parameter \<open>name\<close>.
\<close>

record normal_dist =
  dist_loc :: tensor
  dist_scale :: tensor
  event_dims :: nat

datatype site_kind = Param_site | Sample_site | Observed_site

record site =
  site_kind :: site_kind
  site_name :: string
  site_dist :: "normal_dist option"
  site_value :: tensor

record ('g, 'o) library =
  np_random_rand :: "nat \<Rightarrow> nat \<Rightarrow> 'g \<Rightarrow> matrix \<times> 'g"
  np_random_normal :: "real \<Rightarrow> real \<Rightarrow> nat \<Rightarrow> 'g \<Rightarrow> vector \<times> 'g"
  torch_randn :: "'g \<Rightarrow> real \<times> 'g"
  nn_init_uniform :: "nat \<Rightarrow> 'g \<Rightarrow> real \<times> 'g"
  adam_init :: "real \<Rightarrow> 'o"
  adam_update :: "'o \<Rightarrow> string \<Rightarrow> nat \<Rightarrow> real \<Rightarrow> real \<Rightarrow> real"
  adam_advance :: "'o \<Rightarrow> (string \<times> vector) list \<Rightarrow> 'o"
  trace_elbo :: "site list \<Rightarrow> site list \<Rightarrow> real"
  trace_elbo_grad :: "site list \<Rightarrow> site list \<Rightarrow> string \<Rightarrow> nat \<Rightarrow> real"

subsection \<open>Array operations of numpy and torch used by the notebook\<close>

text \<open>\<open>has_shape a (n, m)\<close> is \<^verbatim>\<open>a.shape == (n, m)\<close> for a two-dimensional array.\<close>

fun has_shape :: "matrix \<Rightarrow> nat \<times> nat \<Rightarrow> bool" where
  "has_shape a (n, m) = (length a = n \<and> list_all (\<lambda>r. length r = m) a)"

definition np_ones :: "nat \<Rightarrow> vector" where
  "np_ones p = replicate p 1"

definition np_repeat :: "real \<Rightarrow> nat \<Rightarrow> vector" where
  "np_repeat v n = replicate n v"

definition scale_vector :: "real \<Rightarrow> vector \<Rightarrow> vector" where
  "scale_vector c v = map (\<lambda>x. c * x) v"

definition dot :: "vector \<Rightarrow> vector \<Rightarrow> real" where
  "dot u v = sum_list (map2 (\<lambda>a b. a * b) u v)"

text \<open>\<^verbatim>\<open>np.matmul(X, w)\<close> of a matrix and a vector: the rows of \<open>X\<close> must be as long as \<open>w\<close>.\<close>

definition np_matmul :: "matrix \<Rightarrow> vector \<Rightarrow> error + vector" where
  "np_matmul X w =
     (if list_all (\<lambda>r. length r = length w) X then Inr (map (\<lambda>r. dot r w) X)
      else Inl ValueError)"

text \<open>
  \<^verbatim>\<open>a + b\<close> of two one-dimensional arrays, with numpy's broadcasting: equal lengths, or
  one of the two of length one.
\<close>

definition np_add :: "vector \<Rightarrow> vector \<Rightarrow> error + vector" where
  "np_add a b =
     (if length a = length b then Inr (map2 (\<lambda>x y. x + y) a b)
      else if length a = 1 then Inr (map (\<lambda>y. hd a + y) b)
      else if length b = 1 then Inr (map (\<lambda>x. x + hd b) a)
      else Inl ValueError)"

text \<open>\<^verbatim>\<open>y.reshape(N, 1)\<close> of a one-dimensional array: it must have \<open>N\<close> entries.\<close>

definition np_reshape_column :: "vector \<Rightarrow> nat \<Rightarrow> error + matrix" where
  "np_reshape_column y n =
     (if length y = n then Inr (map (\<lambda>v. [v]) y) else Inl ValueError)"

text \<open>
  \<^verbatim>\<open>torch.tensor(a).type(torch.Tensor)\<close> copies an array into a float32 tensor; on exact
  numbers the copy has the same entries.
\<close>

definition torch_tensor :: "matrix \<Rightarrow> matrix" where
  "torch_tensor a = a"

text \<open>\<^verbatim>\<open>torch.cat((X, y), 1)\<close>: the two tensors must have the same number of rows.\<close>

definition torch_cat_columns :: "matrix \<Rightarrow> matrix \<Rightarrow> error + matrix" where
  "torch_cat_columns a b =
     (if length a = length b then Inr (map2 (\<lambda>r s. r @ s) a b) else Inl RuntimeError)"

section \<open>The toy dataset\<close>

text \<open>
  \<^verbatim>\<open>
  def build_linear_dataset(N, p=1, noise_std=0.01):
      X = np.random.rand(N, p)
      w = 3 * np.ones(p)
      y = np.matmul(X, w) + np.repeat(1, N) + np.random.normal(0, noise_std, size=N)
      y = y.reshape(N, 1)
      X, y = torch.tensor(X).type(torch.Tensor), torch.tensor(y).type(torch.Tensor)
      data = torch.cat((X, y), 1)
      assert data.shape == (N, p + 1)
      return data
  \<close>
  \<open>linear_dataset_tensor\<close> is the body up to the concatenation, and
  \<open>build_linear_dataset\<close> adds the assertion and the return. The sum is evaluated from
  the left, so the noise is drawn after the first addition.
\<close>

definition linear_dataset_tensor ::
  "('g, 'o) library \<Rightarrow> nat \<Rightarrow> nat \<Rightarrow> real \<Rightarrow> 'g \<Rightarrow> error + (matrix \<times> 'g)" where
  "linear_dataset_tensor lib N p noise_std g =
     (case np_random_rand lib N p g of (X, g1) \<Rightarrow>
      let w = scale_vector 3 (np_ones p) in
      case np_matmul X w of Inl e \<Rightarrow> Inl e | Inr Xw \<Rightarrow>
      case np_add Xw (np_repeat 1 N) of Inl e \<Rightarrow> Inl e | Inr Xw1 \<Rightarrow>
      case np_random_normal lib 0 noise_std N g1 of (eps, g2) \<Rightarrow>
      case np_add Xw1 eps of Inl e \<Rightarrow> Inl e | Inr y \<Rightarrow>
      case np_reshape_column y N of Inl e \<Rightarrow> Inl e | Inr ycol \<Rightarrow>
      case torch_cat_columns (torch_tensor X) (torch_tensor ycol) of Inl e \<Rightarrow> Inl e
      | Inr data \<Rightarrow> Inr (data, g2))"

definition build_linear_dataset ::
  "('g, 'o) library \<Rightarrow> nat \<Rightarrow> nat \<Rightarrow> real \<Rightarrow> 'g \<Rightarrow> error + (matrix \<times> 'g)" where
  "build_linear_dataset lib N p noise_std g =
     (case linear_dataset_tensor lib N p noise_std g of Inl e \<Rightarrow> Inl e
      | Inr (data, g') \<Rightarrow>
          if has_shape data (N, p + 1) then Inr (data, g') else Inl AssertionError)"

text \<open>
  A draw of the random sources for the call \<open>build_linear_dataset N p noise_std\<close> in the
  generator state \<open>g\<close>: the feature matrix and the noise vector the two library calls
  return, and the fact that they have the shapes the calls ask for.
\<close>

definition drawn_X :: "('g, 'o) library \<Rightarrow> nat \<Rightarrow> nat \<Rightarrow> 'g \<Rightarrow> matrix" where
  "drawn_X lib N p g = fst (np_random_rand lib N p g)"

definition drawn_eps :: "('g, 'o) library \<Rightarrow> nat \<Rightarrow> nat \<Rightarrow> real \<Rightarrow> 'g \<Rightarrow> vector" where
  "drawn_eps lib N p noise_std g =
     fst (np_random_normal lib 0 noise_std N (snd (np_random_rand lib N p g)))"

definition draw_shapes :: "('g, 'o) library \<Rightarrow> nat \<Rightarrow> nat \<Rightarrow> real \<Rightarrow> 'g \<Rightarrow> bool" where
  "draw_shapes lib N p noise_std g =
     (has_shape (drawn_X lib N p g) (N, p) \<and> length (drawn_eps lib N p noise_std g) = N)"

section \<open>The notebook's state and its programs\<close>

text \<open>
  \<^verbatim>\<open>
  class RegressionModel(nn.Module):
      def __init__(self, p):
          super(RegressionModel, self).__init__()
          self.linear = nn.Linear(p, 1)
      def forward(self, x):
          return self.linear(x)
  \<close>
  A linear layer is its two parameters, a regression model its one layer.
\<close>

record Linear =
  weight :: tensor
  bias :: tensor

record RegressionModel =
  linear_layer :: Linear

text \<open>
  The calls and the printed lines of a run, in the order they happen. A call is logged
  where it is made, a value a call returned after the call:
  \<open>Call_regression_model m x\<close> is the call \<^verbatim>\<open>m(x)\<close> of a regression model,
  \<open>Call_loss_fn y_pred y_data l\<close> is \<^verbatim>\<open>loss_fn(y_pred, y_data)\<close> returning \<open>l\<close>,
  \<open>Returned_regressor r\<close> the regressor a call of the guide returned,
  \<open>Returned_loss l\<close> the loss \<^verbatim>\<open>svi.step\<close> returned,
  \<open>Print_iteration k l\<close> the line \<^verbatim>\<open>"[iteration %04d] loss: %.4f" % (k, l)\<close>,
  \<open>Print_parameter n v\<close> the line \<^verbatim>\<open>"%s: %.3f" % (n, v)\<close>,
  \<open>Print_store_entry n v\<close> the line \<^verbatim>\<open>"[%s]: %.3f" % (n, v)\<close> and
  \<open>Print_loss l\<close> the line \<^verbatim>\<open>"Loss: ", l\<close>.
\<close>

datatype event =
    Call_build_linear_dataset nat
  | Call_regression_model RegressionModel matrix
  | Call_loss_fn tensor tensor real
  | Call_zero_grad
  | Call_backward
  | Call_optim_step
  | Call_clear_param_store
  | Call_svi_step "matrix option"
  | Call_guide "matrix option"
  | Call_model "matrix option"
  | Returned_regressor RegressionModel
  | Returned_loss real
  | Print_iteration nat real
  | Print_line string
  | Print_parameter string real
  | Print_store_entry string real
  | Print_loss real

text \<open>
  The state the cells share: the random generators, the global \<^verbatim>\<open>regression_model\<close>
  with the gradients of its two parameters, the torch optimizer \<^verbatim>\<open>optim\<close> of the first
  training cell, the pyro optimizer that later takes the same name, pyro's parameter
  store (an ordered dictionary), the sites recorded by the trace in progress, the
  globals \<^verbatim>\<open>sampled_reg_model\<close> and \<^verbatim>\<open>y_preds\<close>, and the log of calls and printed
  lines. All of these are in the memory of the process. What is outside of it, files by
  their path (a database or a network peer is one more path), is \<open>storage\<close>.
\<close>

record ('g, 'o) world =
  rng :: 'g
  regression_model :: RegressionModel
  weight_grad :: "tensor option"
  bias_grad :: "tensor option"
  optim :: 'o
  svi_optim :: 'o
  param_store :: "(string \<times> tensor) list"
  pyro_trace :: "site list"
  sampled_reg_model :: "RegressionModel option"
  y_preds :: matrix
  events :: "event list"
  storage :: "string \<rightharpoonup> string"

subsection \<open>Sequencing\<close>

text \<open>
  A program takes the state and raises or returns a value and the new state. \<open>seq\<close> is
  the order of two statements: the second runs where the first returned, and an
  exception of the first is the exception of both. The notebook has no
  \<^verbatim>\<open>try\<close> statement, so this is the only way its programs are combined.
\<close>

definition ret :: "'a \<Rightarrow> 'w \<Rightarrow> error + ('a \<times> 'w)" where
  "ret x w = Inr (x, w)"

definition seq ::
  "('w \<Rightarrow> error + ('a \<times> 'w)) \<Rightarrow> ('a \<Rightarrow> 'w \<Rightarrow> error + ('b \<times> 'w)) \<Rightarrow> 'w \<Rightarrow> error + ('b \<times> 'w)" where
  "seq m f w = (case m w of Inl e \<Rightarrow> Inl e | Inr (x, w') \<Rightarrow> f x w')"

definition then_do ::
  "('w \<Rightarrow> error + ('a \<times> 'w)) \<Rightarrow> ('w \<Rightarrow> error + ('b \<times> 'w)) \<Rightarrow> 'w \<Rightarrow> error + ('b \<times> 'w)" where
  "then_do m n = seq m (\<lambda>_. n)"

definition lift :: "error + 'a \<Rightarrow> 'w \<Rightarrow> error + ('a \<times> 'w)" where
  "lift r w = (case r of Inl e \<Rightarrow> Inl e | Inr x \<Rightarrow> Inr (x, w))"

definition reads :: "('w \<Rightarrow> 'a) \<Rightarrow> 'w \<Rightarrow> error + ('a \<times> 'w)" where
  "reads f w = Inr (f w, w)"

definition modify :: "('w \<Rightarrow> 'w) \<Rightarrow> 'w \<Rightarrow> error + (unit \<times> 'w)" where
  "modify f w = Inr ((), f w)"

definition emit :: "event \<Rightarrow> ('g, 'o) world \<Rightarrow> error + (unit \<times> ('g, 'o) world)" where
  "emit ev = modify (\<lambda>w. w\<lparr>events := events w @ [ev]\<rparr>)"

text \<open>\<^verbatim>\<open>for j in range(n): body(j)\<close>\<close>

fun for_range :: "nat \<Rightarrow> (nat \<Rightarrow> 'w \<Rightarrow> error + (unit \<times> 'w)) \<Rightarrow> 'w \<Rightarrow> error + (unit \<times> 'w)" where
  "for_range 0 body = ret ()"
| "for_range (Suc n) body = then_do (for_range n body) (body n)"

text \<open>A draw of one of the generators, as a program on the state.\<close>

definition draw :: "('g \<Rightarrow> 'a \<times> 'g) \<Rightarrow> ('g, 'o) world \<Rightarrow> error + ('a \<times> ('g, 'o) world)" where
  "draw d w = (case d (rng w) of (x, g') \<Rightarrow> Inr (x, w\<lparr>rng := g'\<rparr>))"

fun draw_list :: "('g \<Rightarrow> real \<times> 'g) \<Rightarrow> nat \<Rightarrow> 'g \<Rightarrow> vector \<times> 'g" where
  "draw_list d 0 g = ([], g)"
| "draw_list d (Suc n) g =
     (case d g of (x, g1) \<Rightarrow> case draw_list d n g1 of (xs, g2) \<Rightarrow> (x # xs, g2))"

fun draw_rows :: "('g \<Rightarrow> real \<times> 'g) \<Rightarrow> nat \<Rightarrow> nat \<Rightarrow> 'g \<Rightarrow> matrix \<times> 'g" where
  "draw_rows d 0 m g = ([], g)"
| "draw_rows d (Suc n) m g =
     (case draw_list d m g of (r, g1) \<Rightarrow> case draw_rows d n m g1 of (rs, g2) \<Rightarrow> (r # rs, g2))"

subsection \<open>Tensors\<close>

text \<open>
  The entries of a tensor in row-major order, and a map over the entries that knows the
  row-major index of each and keeps the shape.
\<close>

fun entries :: "tensor \<Rightarrow> vector" where
  "entries (Vec v) = v"
| "entries (Mat m) = concat m"

definition map_indexed :: "(nat \<Rightarrow> real \<Rightarrow> real) \<Rightarrow> nat \<Rightarrow> vector \<Rightarrow> vector" where
  "map_indexed f start v = map (\<lambda>(k, x). f k x) (List.enumerate start v)"

fun map_entries :: "(nat \<Rightarrow> real \<Rightarrow> real) \<Rightarrow> tensor \<Rightarrow> tensor" where
  "map_entries f (Vec v) = Vec (map_indexed f 0 v)"
| "map_entries f (Mat m) =
     Mat (map (\<lambda>(i, r). map_indexed f (i * length r) r) (List.enumerate 0 m))"

text \<open>
  The shape of a tensor: its length in one dimension, the lengths of its rows in two.
\<close>

datatype dims = Dims1 nat | Dims2 "nat list"

fun shape :: "tensor \<Rightarrow> dims" where
  "shape (Vec v) = Dims1 (length v)"
| "shape (Mat m) = Dims2 (map length m)"

definition same_shape :: "tensor \<Rightarrow> tensor \<Rightarrow> bool" where
  "same_shape a b = (shape a = shape b)"

definition zeros_like :: "tensor \<Rightarrow> tensor" where
  "zeros_like t = map_entries (\<lambda>k x. 0) t"

definition add_tensor :: "tensor \<Rightarrow> tensor \<Rightarrow> tensor" where
  "add_tensor a b = map_entries (\<lambda>k x. x + entries b ! k) a"

text \<open>\<^verbatim>\<open>data[:, :-1]\<close> and \<^verbatim>\<open>data[:, -1]\<close>; the second needs a last column.\<close>

definition all_but_last_column :: "matrix \<Rightarrow> matrix" where
  "all_but_last_column a = map butlast a"

definition last_column :: "matrix \<Rightarrow> error + vector" where
  "last_column a = (if list_all (\<lambda>r. r \<noteq> []) a then Inr (map last a) else Inl IndexError)"

text \<open>
  \<^verbatim>\<open>a.squeeze(-1)\<close> drops the last dimension when it is one and returns the tensor
  unchanged otherwise.
\<close>

definition squeeze_last :: "matrix \<Rightarrow> tensor" where
  "squeeze_last a = (if list_all (\<lambda>r. length r = 1) a then Vec (map hd a) else Mat a)"

text \<open>
  \<^verbatim>\<open>F.linear(x, W, b)\<close>, the forward pass of \<^verbatim>\<open>nn.Linear\<close> on a two-dimensional input:
  \<open>x W\<^sup>T + b\<close> for a weight with one row per output and a bias with one entry per
  output. The parameters of a layer made by \<^verbatim>\<open>nn.Linear\<close> have these dimensions; other
  tensors are refused with the size mismatch torch reports.
\<close>

fun F_linear :: "matrix \<Rightarrow> tensor \<Rightarrow> tensor \<Rightarrow> error + matrix" where
  "F_linear x (Mat W) (Vec b) =
     (if list_all (\<lambda>r. list_all (\<lambda>wr. length wr = length r) W) x \<and> length b = length W
      then Inr (map (\<lambda>r. map2 (\<lambda>wr bj. dot r wr + bj) W b) x)
      else Inl RuntimeError)"
| "F_linear x (Mat W) (Mat b) = Inl RuntimeError"
| "F_linear x (Vec W) b = Inl RuntimeError"

text \<open>
  \<^verbatim>\<open>torch.nn.MSELoss\<close>: the sum (\<^verbatim>\<open>size_average=False\<close>) or the mean (the default) of the
  squared differences of two tensors of one shape. The notebook never passes two
  shapes; they are refused here, where torch would first try to broadcast them.
\<close>

datatype reduction = Reduce_sum | Reduce_mean

definition MSELoss :: "reduction \<Rightarrow> tensor \<Rightarrow> tensor \<Rightarrow> error + real" where
  "MSELoss red input target =
     (if same_shape input target then
        let sq = map2 (\<lambda>a b. (a - b)\<^sup>2) (entries input) (entries target) in
        Inr (case red of Reduce_sum \<Rightarrow> sum_list sq
             | Reduce_mean \<Rightarrow> sum_list sq / real (length sq))
      else Inl RuntimeError)"

text \<open>\<^verbatim>\<open>a + b\<close> of two torch tensors of two dimensions and one shape.\<close>

definition torch_add :: "matrix \<Rightarrow> matrix \<Rightarrow> error + matrix" where
  "torch_add a b =
     (if map length a = map length b then Inr (map2 (\<lambda>r s. map2 (\<lambda>x y. x + y) r s) a b)
      else Inl RuntimeError)"

text \<open>\<^verbatim>\<open>"%.3f" % v\<close> of a tensor: it must have exactly one entry.\<close>

definition format_scalar :: "tensor \<Rightarrow> error + real" where
  "format_scalar t = (case entries t of [x] \<Rightarrow> Inr x | _ \<Rightarrow> Inl TypeError)"

subsection \<open>The regression model\<close>

text \<open>
  \<^verbatim>\<open>nn.Linear(inp, out)\<close> allocates a weight of \<open>out\<close> rows and \<open>inp\<close> columns and a
  bias of \<open>out\<close> entries and fills them with its initial draws.
\<close>

definition nn_Linear :: "('g, 'o) library \<Rightarrow> nat \<Rightarrow> nat \<Rightarrow> 'g \<Rightarrow> Linear \<times> 'g" where
  "nn_Linear lib inp out g =
     (case draw_rows (nn_init_uniform lib inp) out inp g of (W, g1) \<Rightarrow>
      case draw_list (nn_init_uniform lib inp) out g1 of (b, g2) \<Rightarrow>
        (\<lparr>weight = Mat W, bias = Vec b\<rparr>, g2))"

definition RegressionModel_init :: "('g, 'o) library \<Rightarrow> nat \<Rightarrow> 'g \<Rightarrow> RegressionModel \<times> 'g" where
  "RegressionModel_init lib p g =
     (case nn_Linear lib p 1 g of (l, g') \<Rightarrow> (\<lparr>linear_layer = l\<rparr>, g'))"

definition forward :: "RegressionModel \<Rightarrow> matrix \<Rightarrow> error + matrix" where
  "forward m x = F_linear x (weight (linear_layer m)) (bias (linear_layer m))"

definition named_parameters :: "RegressionModel \<Rightarrow> (string \<times> tensor) list" where
  "named_parameters m =
     [(''linear.weight'', weight (linear_layer m)), (''linear.bias'', bias (linear_layer m))]"

subsection \<open>The setup cell\<close>

text \<open>
  \<^verbatim>\<open>
  smoke_test = ('CI' in os.environ)
  assert pyro.__version__.startswith('0.3.0')
  pyro.enable_validation(True)
  N = 100  # size of toy data
  num_iterations = 1000 if not smoke_test else 2
  \<close>
  The environment is a dictionary of strings, the version of pyro a string.
\<close>

type_synonym environ = "string \<rightharpoonup> string"

definition smoke_test :: "environ \<Rightarrow> bool" where
  "smoke_test env = (env ''CI'' \<noteq> None)"

definition num_iterations :: "environ \<Rightarrow> nat" where
  "num_iterations env = (if \<not> smoke_test env then 1000 else 2)"

definition N :: nat where
  "N = 100"

definition startswith :: "string \<Rightarrow> string \<Rightarrow> bool" where
  "startswith s p = (take (length p) s = p)"

definition raise :: "error \<Rightarrow> 'w \<Rightarrow> error + ('a \<times> 'w)" where
  "raise e w = Inl e"

definition assert :: "bool \<Rightarrow> 'w \<Rightarrow> error + (unit \<times> 'w)" where
  "assert b = (if b then ret () else raise AssertionError)"

definition cell_setup :: "string \<Rightarrow> ('g, 'o) world \<Rightarrow> error + (unit \<times> ('g, 'o) world)" where
  "cell_setup version = assert (startswith version ''0.3.0'')"

text \<open>\<^verbatim>\<open>regression_model = RegressionModel(1)\<close>; a new parameter has no gradient.\<close>

definition cell_regression_model ::
  "('g, 'o) library \<Rightarrow> ('g, 'o) world \<Rightarrow> error + (unit \<times> ('g, 'o) world)" where
  "cell_regression_model lib =
     seq (draw (RegressionModel_init lib 1)) (\<lambda>m.
     modify (\<lambda>w. w\<lparr>regression_model := m, weight_grad := None, bias_grad := None\<rparr>))"

subsection \<open>The point-estimate training cell\<close>

text \<open>
  \<^verbatim>\<open>optim.zero_grad()\<close> sets the gradients that exist to zero.
  \<^verbatim>\<open>loss.backward()\<close> adds to the gradient of each parameter the derivative of the
  loss in it. The loss is the sum of the squares of \<open>y_pred - y_data\<close> with \<open>y_pred\<close>
  the output of the one linear layer, so the derivative in the weight of input \<open>k\<close> is
  the sum over the rows of \<open>2 (y_pred - y_data)\<close> times entry \<open>k\<close> of the row, and the
  derivative in the bias is the sum of \<open>2 (y_pred - y_data)\<close>; a gradient has the shape
  of its parameter.
  \<^verbatim>\<open>optim.step()\<close> updates in place each parameter that has a gradient, entry by entry.
\<close>

definition zero_grad :: "('g, 'o) world \<Rightarrow> ('g, 'o) world" where
  "zero_grad w =
     w\<lparr>weight_grad := map_option zeros_like (weight_grad w),
       bias_grad := map_option zeros_like (bias_grad w)\<rparr>"

definition accumulate :: "tensor option \<Rightarrow> tensor \<Rightarrow> tensor option" where
  "accumulate old g = (case old of None \<Rightarrow> Some g | Some t \<Rightarrow> Some (add_tensor t g))"

definition residuals :: "vector \<Rightarrow> vector \<Rightarrow> vector" where
  "residuals y_pred y_data = map2 (\<lambda>p y. 2 * (p - y)) y_pred y_data"

definition weight_gradient :: "tensor \<Rightarrow> matrix \<Rightarrow> vector \<Rightarrow> tensor" where
  "weight_gradient W x res =
     map_entries (\<lambda>k _. sum_list (map2 (\<lambda>r xr. r * xr ! k) res x)) W"

definition bias_gradient :: "tensor \<Rightarrow> vector \<Rightarrow> tensor" where
  "bias_gradient b res = map_entries (\<lambda>k _. sum_list res) b"

definition backward :: "matrix \<Rightarrow> tensor \<Rightarrow> vector \<Rightarrow> ('g, 'o) world \<Rightarrow> ('g, 'o) world" where
  "backward x_data y_pred y_data w =
     (let l = linear_layer (regression_model w);
          res = residuals (entries y_pred) y_data in
      w\<lparr>weight_grad := accumulate (weight_grad w) (weight_gradient (weight l) x_data res),
        bias_grad := accumulate (bias_grad w) (bias_gradient (bias l) res)\<rparr>)"

definition adam_tensor ::
  "('g, 'o) library \<Rightarrow> 'o \<Rightarrow> string \<Rightarrow> tensor \<Rightarrow> tensor option \<Rightarrow> tensor" where
  "adam_tensor lib opt name t g =
     (case g of None \<Rightarrow> t
      | Some gt \<Rightarrow> map_entries (\<lambda>k x. adam_update lib opt name k x (entries gt ! k)) t)"

definition gradients :: "('g, 'o) world \<Rightarrow> (string \<times> vector) list" where
  "gradients w =
     (case weight_grad w of None \<Rightarrow> [] | Some g \<Rightarrow> [(''linear.weight'', entries g)]) @
     (case bias_grad w of None \<Rightarrow> [] | Some g \<Rightarrow> [(''linear.bias'', entries g)])"

definition optim_step :: "('g, 'o) library \<Rightarrow> ('g, 'o) world \<Rightarrow> ('g, 'o) world" where
  "optim_step lib w =
     (let l = linear_layer (regression_model w); opt = optim w in
      w\<lparr>regression_model :=
          \<lparr>linear_layer =
             \<lparr>weight = adam_tensor lib opt ''linear.weight'' (weight l) (weight_grad w),
              bias = adam_tensor lib opt ''linear.bias'' (bias l) (bias_grad w)\<rparr>\<rparr>,
        optim := adam_advance lib opt (gradients w)\<rparr>)"

text \<open>\<^verbatim>\<open>build_linear_dataset(n)\<close> with its default arguments, called by a cell.\<close>

definition call_build_linear_dataset ::
  "('g, 'o) library \<Rightarrow> nat \<Rightarrow> ('g, 'o) world \<Rightarrow> error + (matrix \<times> ('g, 'o) world)" where
  "call_build_linear_dataset lib n =
     then_do (emit (Call_build_linear_dataset n))
       (\<lambda>w. case build_linear_dataset lib n 1 (1 / 100) (rng w) of Inl e \<Rightarrow> Inl e
            | Inr (data, g') \<Rightarrow> Inr (data, w\<lparr>rng := g'\<rparr>))"

fun for_each :: "'a list \<Rightarrow> ('a \<Rightarrow> 'w \<Rightarrow> error + (unit \<times> 'w)) \<Rightarrow> 'w \<Rightarrow> error + (unit \<times> 'w)" where
  "for_each [] body = ret ()"
| "for_each (x # xs) body = then_do (body x) (for_each xs body)"

text \<open>
  \<^verbatim>\<open>
  loss_fn = torch.nn.MSELoss(size_average=False)
  optim = torch.optim.Adam(regression_model.parameters(), lr=0.05)

  def main():
      data = build_linear_dataset(N)
      x_data = data[:, :-1]
      y_data = data[:, -1]
      for j in range(num_iterations):
          y_pred = regression_model(x_data).squeeze(-1)
          loss = loss_fn(y_pred, y_data)
          optim.zero_grad()
          loss.backward()
          optim.step()
          if (j + 1) % 50 == 0:
              print("[iteration %04d] loss: %.4f" % (j + 1, loss.item()))
      print("Learned parameters:")
      for name, param in regression_model.named_parameters():
          print("%s: %.3f" % (name, param.data.numpy()))
  \<close>
  \<open>train_iteration\<close> is the body of the loop; the notebook has two functions \<^verbatim>\<open>main\<close>,
  this one is \<open>main_regression\<close>.
\<close>

definition loss_fn :: "tensor \<Rightarrow> tensor \<Rightarrow> error + real" where
  "loss_fn = MSELoss Reduce_sum"

definition train_iteration ::
  "('g, 'o) library \<Rightarrow> matrix \<Rightarrow> vector \<Rightarrow> nat \<Rightarrow> ('g, 'o) world \<Rightarrow> error + (unit \<times> ('g, 'o) world)" where
  "train_iteration lib x_data y_data j =
     seq (reads regression_model) (\<lambda>m.
     then_do (emit (Call_regression_model m x_data)) (
     seq (lift (forward m x_data)) (\<lambda>out.
     let y_pred = squeeze_last out in
     seq (lift (loss_fn y_pred (Vec y_data))) (\<lambda>loss.
     then_do (emit (Call_loss_fn y_pred (Vec y_data) loss)) (
     then_do (emit Call_zero_grad) (
     then_do (modify zero_grad) (
     then_do (emit Call_backward) (
     then_do (modify (backward x_data y_pred y_data)) (
     then_do (emit Call_optim_step) (
     then_do (modify (optim_step lib)) (
     if (j + 1) mod 50 = 0 then emit (Print_iteration (j + 1) loss) else ret ())))))))))))"

definition print_parameter ::
  "string \<times> tensor \<Rightarrow> ('g, 'o) world \<Rightarrow> error + (unit \<times> ('g, 'o) world)" where
  "print_parameter = (\<lambda>(name, param). seq (lift (format_scalar param)) (\<lambda>v.
     emit (Print_parameter name v)))"

definition main_regression ::
  "('g, 'o) library \<Rightarrow> environ \<Rightarrow> ('g, 'o) world \<Rightarrow> error + (unit \<times> ('g, 'o) world)" where
  "main_regression lib env =
     seq (call_build_linear_dataset lib N) (\<lambda>data.
     let x_data = all_but_last_column data in
     seq (lift (last_column data)) (\<lambda>y_data.
     then_do (for_range (num_iterations env) (train_iteration lib x_data y_data)) (
     then_do (emit (Print_line ''Learned parameters:'')) (
     seq (reads regression_model) (\<lambda>m.
     for_each (named_parameters m) print_parameter)))))"

definition cell_training ::
  "('g, 'o) library \<Rightarrow> environ \<Rightarrow> ('g, 'o) world \<Rightarrow> error + (unit \<times> ('g, 'o) world)" where
  "cell_training lib env =
     then_do (modify (\<lambda>w. w\<lparr>optim := adam_init lib (5 / 100)\<rparr>)) (main_regression lib env)"

subsection \<open>Pyro primitives\<close>

text \<open>
  \<^verbatim>\<open>Normal(loc, scale)\<close>: with validation enabled, as the setup cell does, the scale must
  be positive. The notebook gives both arguments one shape; two shapes are refused
  here, where torch would first try to broadcast them. \<^verbatim>\<open>d.to_event(n)\<close> declares
  \<open>n\<close> more dimensions of a draw dependent.
\<close>

definition Normal :: "tensor \<Rightarrow> tensor \<Rightarrow> error + normal_dist" where
  "Normal l s =
     (if same_shape l s \<and> list_all (\<lambda>x. 0 < x) (entries s)
      then Inr \<lparr>dist_loc = l, dist_scale = s, event_dims = 0\<rparr>
      else Inl ValueError)"

definition to_event :: "nat \<Rightarrow> normal_dist \<Rightarrow> normal_dist" where
  "to_event n d = d\<lparr>event_dims := event_dims d + n\<rparr>"

text \<open>
  A draw of a normal distribution is its location plus its scale times a standard
  normal draw, entry by entry.
\<close>

definition normal_rsample :: "('g, 'o) library \<Rightarrow> normal_dist \<Rightarrow> 'g \<Rightarrow> tensor \<times> 'g" where
  "normal_rsample lib d g =
     (case draw_list (torch_randn lib) (length (entries (dist_loc d))) g of (zs, g') \<Rightarrow>
        (map_entries (\<lambda>k l. l + zs ! k * entries (dist_scale d) ! k) (dist_loc d), g'))"

text \<open>\<^verbatim>\<open>torch.nn.Softplus()\<close>, with its default threshold of 20.\<close>

definition softplus1 :: "real \<Rightarrow> real" where
  "softplus1 x = (if 20 < x then x else ln (1 + exp x))"

definition softplus :: "tensor \<Rightarrow> tensor" where
  "softplus t = map_entries (\<lambda>k x. softplus1 x) t"

definition record_site :: "site \<Rightarrow> ('g, 'o) world \<Rightarrow> ('g, 'o) world" where
  "record_site s w = w\<lparr>pyro_trace := pyro_trace w @ [s]\<rparr>"

text \<open>
  \<^verbatim>\<open>pyro.param(name, init)\<close> returns the parameter of that name in the store, and
  stores the initial value first when there is none.
\<close>

definition pyro_param ::
  "string \<Rightarrow> tensor \<Rightarrow> ('g, 'o) world \<Rightarrow> error + (tensor \<times> ('g, 'o) world)" where
  "pyro_param name init w =
     (case map_of (param_store w) name of
        Some v \<Rightarrow>
          Inr (v, record_site
            \<lparr>site_kind = Param_site, site_name = name, site_dist = None, site_value = v\<rparr> w)
      | None \<Rightarrow>
          Inr (init, record_site
            \<lparr>site_kind = Param_site, site_name = name, site_dist = None, site_value = init\<rparr>
            (w\<lparr>param_store := param_store w @ [(name, init)]\<rparr>)))"

text \<open>
  \<^verbatim>\<open>pyro.sample(name, d)\<close> draws from \<open>d\<close>, unless the program runs in the replay of a
  trace that has a sample of that name, whose value it takes. \<^verbatim>\<open>pyro.sample(name, d, obs=v)\<close>
  takes \<open>v\<close>.
\<close>

datatype handler = Fresh | Replay "site list"

definition replayed :: "handler \<Rightarrow> string \<Rightarrow> tensor option" where
  "replayed h name =
     (case h of Fresh \<Rightarrow> None
      | Replay tr \<Rightarrow>
          map_option site_value
            (find (\<lambda>s. site_kind s = Sample_site \<and> site_name s = name) tr))"

definition pyro_sample ::
  "('g, 'o) library \<Rightarrow> handler \<Rightarrow> string \<Rightarrow> normal_dist \<Rightarrow> ('g, 'o) world
     \<Rightarrow> error + (tensor \<times> ('g, 'o) world)" where
  "pyro_sample lib h name d =
     seq (case replayed h name of Some v \<Rightarrow> ret v | None \<Rightarrow> draw (normal_rsample lib d)) (\<lambda>v.
     then_do (modify (record_site
        \<lparr>site_kind = Sample_site, site_name = name, site_dist = Some d, site_value = v\<rparr>))
       (ret v))"

definition pyro_observe ::
  "string \<Rightarrow> normal_dist \<Rightarrow> tensor \<Rightarrow> ('g, 'o) world \<Rightarrow> error + (tensor \<times> ('g, 'o) world)" where
  "pyro_observe name d obs =
     then_do (modify (record_site
        \<lparr>site_kind = Observed_site, site_name = name, site_dist = Some d, site_value = obs\<rparr>))
       (ret obs)"

text \<open>
  \<^verbatim>\<open>pyro.random_module(name, nn_module, prior)()\<close> returns a copy of the module in which
  every parameter that has a prior is a sample of it, at the site \<^verbatim>\<open>name$$$parameter\<close>,
  and every other parameter a pyro parameter of that name. The prior is a dictionary
  by parameter name; one distribution for all parameters is the constant dictionary.
\<close>

definition lift_parameter ::
  "('g, 'o) library \<Rightarrow> handler \<Rightarrow> string \<Rightarrow> (string \<rightharpoonup> normal_dist) \<Rightarrow> string \<times> tensor
     \<Rightarrow> ('g, 'o) world \<Rightarrow> error + (tensor \<times> ('g, 'o) world)" where
  "lift_parameter lib h name prior = (\<lambda>(pname, current).
     case prior pname of
       Some d \<Rightarrow> pyro_sample lib h (name @ ''$$$'' @ pname) d
     | None \<Rightarrow> pyro_param (name @ ''$$$'' @ pname) current)"

definition random_module ::
  "('g, 'o) library \<Rightarrow> handler \<Rightarrow> string \<Rightarrow> RegressionModel \<Rightarrow> (string \<rightharpoonup> normal_dist)
     \<Rightarrow> ('g, 'o) world \<Rightarrow> error + (RegressionModel \<times> ('g, 'o) world)" where
  "random_module lib h name nn_module prior =
     seq (lift_parameter lib h name prior
            (''linear.weight'', weight (linear_layer nn_module))) (\<lambda>wt.
     seq (lift_parameter lib h name prior
            (''linear.bias'', bias (linear_layer nn_module))) (\<lambda>b.
     ret \<lparr>linear_layer = \<lparr>weight = wt, bias = b\<rparr>\<rparr>))"

text \<open>
  \<^verbatim>\<open>
  loc = torch.zeros(1, 1)
  scale = torch.ones(1, 1)
  prior = Normal(loc, scale)
  lifted_module = pyro.random_module("regression_module", regression_model, prior)
  sampled_reg_model = lifted_module()
  \<close>
\<close>

definition cell_random_module ::
  "('g, 'o) library \<Rightarrow> ('g, 'o) world \<Rightarrow> error + (unit \<times> ('g, 'o) world)" where
  "cell_random_module lib =
     seq (lift (Normal (Mat [[0]]) (Mat [[1]]))) (\<lambda>prior.
     seq (reads regression_model) (\<lambda>m.
     seq (random_module lib Fresh ''regression_module'' m (\<lambda>pname. Some prior)) (\<lambda>r.
     modify (\<lambda>w. w\<lparr>sampled_reg_model := Some r\<rparr>))))"

subsection \<open>Model and guide\<close>

text \<open>
  \<^verbatim>\<open>
  def model(data):
      loc, scale = torch.zeros(1, 1), 10 * torch.ones(1, 1)
      bias_loc, bias_scale = torch.zeros(1), 10 * torch.ones(1)
      w_prior = Normal(loc, scale).to_event(1)
      b_prior = Normal(bias_loc, bias_scale).to_event(1)
      priors = {'linear.weight': w_prior, 'linear.bias': b_prior}
      lifted_module = pyro.random_module("module", regression_model, priors)
      lifted_reg_model = lifted_module()
      with pyro.plate("map", N):
          x_data = data[:, :-1]
          y_data = data[:, -1]
          prediction_mean = lifted_reg_model(x_data).squeeze(-1)
          pyro.sample("obs",
                      Normal(prediction_mean, 0.1 * torch.ones(data.size(0))),
                      obs=y_data)
  \<close>
  The data is a tensor or \<^verbatim>\<open>None\<close>, which cannot be indexed. The plate declares the
  observations independent; it changes what the loss makes of the trace and nothing of
  the run of the model.
\<close>

definition subscriptable :: "matrix option \<Rightarrow> error + matrix" where
  "subscriptable data = (case data of None \<Rightarrow> Inl TypeError | Some d \<Rightarrow> Inr d)"

definition model ::
  "('g, 'o) library \<Rightarrow> handler \<Rightarrow> matrix option \<Rightarrow> ('g, 'o) world
     \<Rightarrow> error + (unit \<times> ('g, 'o) world)" where
  "model lib h data =
     seq (lift (Normal (Mat [[0]]) (Mat [[10]]))) (\<lambda>w_normal.
     seq (lift (Normal (Vec [0]) (Vec [10]))) (\<lambda>b_normal.
     let w_prior = to_event 1 w_normal; b_prior = to_event 1 b_normal;
         priors = [''linear.weight'' \<mapsto> w_prior, ''linear.bias'' \<mapsto> b_prior] in
     seq (reads regression_model) (\<lambda>m.
     seq (random_module lib h ''module'' m priors) (\<lambda>lifted_reg_model.
     seq (lift (subscriptable data)) (\<lambda>d.
     let x_data = all_but_last_column d in
     seq (lift (last_column d)) (\<lambda>y_data.
     seq (lift (forward lifted_reg_model x_data)) (\<lambda>out.
     let prediction_mean = squeeze_last out in
     seq (lift (Normal prediction_mean (Vec (replicate (length d) (1 / 10))))) (\<lambda>obs_dist.
     then_do (pyro_observe ''obs'' obs_dist (Vec y_data)) (ret ())))))))))"

text \<open>
  \<^verbatim>\<open>
  softplus = torch.nn.Softplus()

  def guide(data):
      w_loc = torch.randn(1, 1)
      w_log_sig = torch.tensor(-3.0 * torch.ones(1, 1) + 0.05 * torch.randn(1, 1))
      b_loc = torch.randn(1)
      b_log_sig = torch.tensor(-3.0 * torch.ones(1) + 0.05 * torch.randn(1))
      mw_param = pyro.param("guide_mean_weight", w_loc)
      sw_param = softplus(pyro.param("guide_log_scale_weight", w_log_sig))
      mb_param = pyro.param("guide_mean_bias", b_loc)
      sb_param = softplus(pyro.param("guide_log_scale_bias", b_log_sig))
      w_dist = Normal(mw_param, sw_param).to_event(1)
      b_dist = Normal(mb_param, sb_param).to_event(1)
      dists = {'linear.weight': w_dist, 'linear.bias': b_dist}
      lifted_module = pyro.random_module("module", regression_model, dists)
      return lifted_module()
  \<close>
\<close>

definition torch_randn_1x1 :: "('g, 'o) library \<Rightarrow> 'g \<Rightarrow> tensor \<times> 'g" where
  "torch_randn_1x1 lib g = (case draw_rows (torch_randn lib) 1 1 g of (m, g') \<Rightarrow> (Mat m, g'))"

definition torch_randn_1 :: "('g, 'o) library \<Rightarrow> 'g \<Rightarrow> tensor \<times> 'g" where
  "torch_randn_1 lib g = (case draw_list (torch_randn lib) 1 g of (v, g') \<Rightarrow> (Vec v, g'))"

definition log_sig_init :: "tensor \<Rightarrow> tensor" where
  "log_sig_init z = map_entries (\<lambda>k x. - 3 * 1 + (5 / 100) * x) z"

definition guide ::
  "('g, 'o) library \<Rightarrow> matrix option \<Rightarrow> ('g, 'o) world
     \<Rightarrow> error + (RegressionModel \<times> ('g, 'o) world)" where
  "guide lib data =
     seq (draw (torch_randn_1x1 lib)) (\<lambda>w_loc.
     seq (draw (torch_randn_1x1 lib)) (\<lambda>w_z. let w_log_sig = log_sig_init w_z in
     seq (draw (torch_randn_1 lib)) (\<lambda>b_loc.
     seq (draw (torch_randn_1 lib)) (\<lambda>b_z. let b_log_sig = log_sig_init b_z in
     seq (pyro_param ''guide_mean_weight'' w_loc) (\<lambda>mw_param.
     seq (pyro_param ''guide_log_scale_weight'' w_log_sig) (\<lambda>sw_raw.
     let sw_param = softplus sw_raw in
     seq (pyro_param ''guide_mean_bias'' b_loc) (\<lambda>mb_param.
     seq (pyro_param ''guide_log_scale_bias'' b_log_sig) (\<lambda>sb_raw.
     let sb_param = softplus sb_raw in
     seq (lift (Normal mw_param sw_param)) (\<lambda>w_normal.
     seq (lift (Normal mb_param sb_param)) (\<lambda>b_normal.
     let w_dist = to_event 1 w_normal; b_dist = to_event 1 b_normal;
         dists = [''linear.weight'' \<mapsto> w_dist, ''linear.bias'' \<mapsto> b_dist] in
     seq (reads regression_model) (\<lambda>m.
     random_module lib Fresh ''module'' m dists)))))))))))"

subsection \<open>Inference\<close>

text \<open>
  \<^verbatim>\<open>
  optim = Adam({"lr": 0.05})
  svi = SVI(model, guide, optim, loss=Trace_ELBO())
  \<close>
  An \<open>SVI\<close> object holds the model, the guide and the loss with its derivative; its
  optimizer is in the state. The notebook says of \<^verbatim>\<open>svi.step\<close>: "the data argument we
  pass to step will be passed to both model() and guide()". A step runs the guide
  under a trace, runs the model under a trace in the replay of the guide's trace,
  takes the loss of the two traces, lets the optimizer update in place the parameters
  the two runs touched, and returns the loss.
\<close>

record ('g, 'o) SVI =
  svi_model ::
    "handler \<Rightarrow> matrix option \<Rightarrow> ('g, 'o) world \<Rightarrow> error + (unit \<times> ('g, 'o) world)"
  svi_guide ::
    "matrix option \<Rightarrow> ('g, 'o) world \<Rightarrow> error + (RegressionModel \<times> ('g, 'o) world)"
  svi_loss :: "site list \<Rightarrow> site list \<Rightarrow> real"
  svi_loss_grad :: "site list \<Rightarrow> site list \<Rightarrow> string \<Rightarrow> nat \<Rightarrow> real"

definition svi :: "('g, 'o) library \<Rightarrow> ('g, 'o) SVI" where
  "svi lib =
     \<lparr>svi_model = model lib, svi_guide = guide lib,
      svi_loss = trace_elbo lib, svi_loss_grad = trace_elbo_grad lib\<rparr>"

definition touched_params :: "site list \<Rightarrow> string list" where
  "touched_params tr = map site_name (filter (\<lambda>s. site_kind s = Param_site) tr)"

definition svi_optim_step ::
  "('g, 'o) library \<Rightarrow> string list \<Rightarrow> (string \<Rightarrow> nat \<Rightarrow> real) \<Rightarrow> ('g, 'o) world
     \<Rightarrow> ('g, 'o) world" where
  "svi_optim_step lib names grad w =
     w\<lparr>param_store :=
         map (\<lambda>(name, t).
               (name, if name \<in> set names
                      then map_entries (\<lambda>k x. adam_update lib (svi_optim w) name k x (grad name k)) t
                      else t))
           (param_store w),
       svi_optim :=
         adam_advance lib (svi_optim w)
           (map (\<lambda>(name, t). (name, map (grad name) [0..<length (entries t)]))
             (filter (\<lambda>(name, t). name \<in> set names) (param_store w)))\<rparr>"

definition svi_step ::
  "('g, 'o) library \<Rightarrow> ('g, 'o) SVI \<Rightarrow> matrix option \<Rightarrow> ('g, 'o) world
     \<Rightarrow> error + (real \<times> ('g, 'o) world)" where
  "svi_step lib s data =
     then_do (modify (\<lambda>w. w\<lparr>pyro_trace := []\<rparr>)) (
     then_do (emit (Call_guide data)) (
     seq (svi_guide s data) (\<lambda>r.
     seq (reads pyro_trace) (\<lambda>guide_trace.
     then_do (modify (\<lambda>w. w\<lparr>pyro_trace := []\<rparr>)) (
     then_do (emit (Call_model data)) (
     then_do (svi_model s (Replay guide_trace) data) (
     seq (reads pyro_trace) (\<lambda>model_trace.
     then_do (modify (svi_optim_step lib (touched_params (guide_trace @ model_trace))
                (svi_loss_grad s model_trace guide_trace))) (
     then_do (emit (Returned_loss (svi_loss s model_trace guide_trace))) (
     ret (svi_loss s model_trace guide_trace)))))))))))"

text \<open>
  \<^verbatim>\<open>
  def main():
      pyro.clear_param_store()
      data = build_linear_dataset(N)
      for j in range(num_iterations):
          loss = svi.step(data)
          if j % 100 == 0:
              print("[iteration %04d] loss: %.4f" % (j + 1, loss / float(N)))
  \<close>
  This second \<^verbatim>\<open>main\<close> is \<open>main_svi\<close>; \<open>svi_iteration\<close> is the body of its loop.
\<close>

definition clear_param_store :: "('g, 'o) world \<Rightarrow> error + (unit \<times> ('g, 'o) world)" where
  "clear_param_store =
     then_do (emit Call_clear_param_store) (modify (\<lambda>w. w\<lparr>param_store := []\<rparr>))"

definition svi_iteration ::
  "('g, 'o) library \<Rightarrow> matrix \<Rightarrow> nat \<Rightarrow> ('g, 'o) world \<Rightarrow> error + (unit \<times> ('g, 'o) world)" where
  "svi_iteration lib data j =
     then_do (emit (Call_svi_step (Some data))) (
     seq (svi_step lib (svi lib) (Some data)) (\<lambda>loss.
     if j mod 100 = 0 then emit (Print_iteration (j + 1) (loss / real N)) else ret ()))"

definition main_svi ::
  "('g, 'o) library \<Rightarrow> environ \<Rightarrow> ('g, 'o) world \<Rightarrow> error + (unit \<times> ('g, 'o) world)" where
  "main_svi lib env =
     then_do clear_param_store (
     seq (call_build_linear_dataset lib N) (\<lambda>data.
     for_range (num_iterations env) (svi_iteration lib data)))"

definition cell_inference ::
  "('g, 'o) library \<Rightarrow> environ \<Rightarrow> ('g, 'o) world \<Rightarrow> error + (unit \<times> ('g, 'o) world)" where
  "cell_inference lib env =
     then_do (modify (\<lambda>w. w\<lparr>svi_optim := adam_init lib (5 / 100)\<rparr>)) (main_svi lib env)"

subsection \<open>Validating results\<close>

text \<open>
  \<^verbatim>\<open>
  for name, value in pyro.get_param_store().items():
      print("[%s]: %.3f" % (name, value.detach().numpy()))
  \<close>
\<close>

definition print_store_entry ::
  "string \<times> tensor \<Rightarrow> ('g, 'o) world \<Rightarrow> error + (unit \<times> ('g, 'o) world)" where
  "print_store_entry = (\<lambda>(name, v). seq (lift (format_scalar v)) (\<lambda>x.
     emit (Print_store_entry name x)))"

definition cell_print_store :: "('g, 'o) world \<Rightarrow> error + (unit \<times> ('g, 'o) world)" where
  "cell_print_store = seq (reads param_store) (\<lambda>store. for_each store print_store_entry)"

text \<open>
  \<^verbatim>\<open>
  X = np.linspace(6, 7, num=20)
  y = 3 * X + 1
  X, y = X.reshape((20, 1)), y.reshape((20, 1))
  x_data, y_data = torch.tensor(X).type(torch.Tensor), torch.tensor(y).type(torch.Tensor)
  loss = nn.MSELoss()
  y_preds = torch.zeros(20, 1)
  for i in range(20):
      sampled_reg_model = guide(None)
      y_preds = y_preds + sampled_reg_model(x_data)
  y_preds = y_preds / 20
  print("Loss: ", loss(y_preds, y_data).item())
  \<close>
  \<^verbatim>\<open>np.linspace(a, b, num)\<close> is \<open>num\<close> points from \<open>a\<close> to \<open>b\<close> in equal steps.
\<close>

definition np_linspace :: "real \<Rightarrow> real \<Rightarrow> nat \<Rightarrow> vector" where
  "np_linspace a b num = map (\<lambda>i. a + real i * ((b - a) / real (num - 1))) [0..<num]"

definition test_X :: vector where
  "test_X = np_linspace 6 7 20"

definition test_y :: vector where
  "test_y = map (\<lambda>x. 3 * x + 1) test_X"

definition torch_zeros :: "nat \<Rightarrow> nat \<Rightarrow> matrix" where
  "torch_zeros n m = replicate n (replicate m 0)"

definition evaluation_iteration ::
  "('g, 'o) library \<Rightarrow> matrix \<Rightarrow> nat \<Rightarrow> ('g, 'o) world \<Rightarrow> error + (unit \<times> ('g, 'o) world)" where
  "evaluation_iteration lib x_data i =
     then_do (emit (Call_guide None)) (
     seq (guide lib None) (\<lambda>r.
     then_do (modify (\<lambda>w. w\<lparr>sampled_reg_model := Some r\<rparr>)) (
     then_do (emit (Returned_regressor r)) (
     then_do (emit (Call_regression_model r x_data)) (
     seq (lift (forward r x_data)) (\<lambda>out.
     seq (reads y_preds) (\<lambda>acc.
     seq (lift (torch_add acc out)) (\<lambda>total.
     modify (\<lambda>w. w\<lparr>y_preds := total\<rparr>)))))))))"

definition cell_evaluation ::
  "('g, 'o) library \<Rightarrow> ('g, 'o) world \<Rightarrow> error + (unit \<times> ('g, 'o) world)" where
  "cell_evaluation lib =
     seq (lift (np_reshape_column test_X 20)) (\<lambda>X.
     seq (lift (np_reshape_column test_y 20)) (\<lambda>y.
     let x_data = torch_tensor X; y_data = torch_tensor y in
     then_do (modify (\<lambda>w. w\<lparr>y_preds := torch_zeros 20 1\<rparr>)) (
     then_do (for_range 20 (evaluation_iteration lib x_data)) (
     then_do (modify (\<lambda>w. w\<lparr>y_preds := map (map (\<lambda>v. v / 20)) (y_preds w)\<rparr>)) (
     seq (reads y_preds) (\<lambda>avg.
     seq (lift (MSELoss Reduce_mean (Mat avg) (Mat y_data))) (\<lambda>l.
     emit (Print_loss l))))))))"

subsection \<open>The notebook\<close>

text \<open>The code cells in their order, run with an environment and a version of pyro.\<close>

definition notebook ::
  "('g, 'o) library \<Rightarrow> environ \<Rightarrow> string \<Rightarrow> ('g, 'o) world \<Rightarrow> error + (unit \<times> ('g, 'o) world)" where
  "notebook lib env version =
     then_do (cell_setup version) (
     then_do (cell_regression_model lib) (
     then_do (cell_training lib env) (
     then_do (cell_random_module lib) (
     then_do (cell_inference lib env) (
     then_do cell_print_store (
     cell_evaluation lib))))))"

subsection \<open>A small library to run the programs on\<close>

text \<open>
  Generators that count their draws, an optimizer that counts its steps and moves each
  entry against its gradient, and a loss that counts the sites of the two traces.
\<close>

definition demo_library :: "(nat, nat) library" where
  "demo_library =
     \<lparr>np_random_rand = (\<lambda>n p g. (map (\<lambda>i. replicate p (1 / (real i + 2))) [0..<n], Suc g)),
      np_random_normal =
        (\<lambda>loc scale n g. (map (\<lambda>i. loc + scale * (if even i then 1 else - 1)) [0..<n], Suc g)),
      torch_randn = (\<lambda>g. (real g / 4, Suc g)),
      nn_init_uniform = (\<lambda>fan_in g. (1 / (real g + 2), Suc g)),
      adam_init = (\<lambda>lr. 0),
      adam_update = (\<lambda>opt name k x g. x - g / 20),
      adam_advance = (\<lambda>opt grads. Suc opt),
      trace_elbo = (\<lambda>model_trace guide_trace. real (length model_trace + length guide_trace)),
      trace_elbo_grad = (\<lambda>model_trace guide_trace name k. 1)\<rparr>"

text \<open>A library whose \<^verbatim>\<open>np.random.rand\<close> returns one row too many.\<close>

definition broken_library :: "(nat, nat) library" where
  "broken_library =
     demo_library\<lparr>np_random_rand := (\<lambda>n p g. (replicate (Suc n) (replicate p 0), Suc g))\<rparr>"

definition demo_world :: "(nat, nat) world" where
  "demo_world =
     \<lparr>rng = 0,
      regression_model = \<lparr>linear_layer = \<lparr>weight = Mat [[1]], bias = Vec [0]\<rparr>\<rparr>,
      weight_grad = None, bias_grad = None, optim = 0, svi_optim = 0,
      param_store = [], pyro_trace = [], sampled_reg_model = None, y_preds = [],
      events = [], storage = Map.empty\<rparr>"

section \<open>What the runs are expected to do\<close>

text \<open>
  The definitions of this section are not programs of the notebook: they say what a run
  is expected to compute, to keep or to log, and the theorems compare the programs with
  them.
\<close>

subsection \<open>The dataset\<close>

text \<open>
  The row of the dataset for a row \<open>r\<close> of \<open>p\<close> features and a noise \<open>e\<close>: the features,
  then their product with the weights, all 3, plus the bias 1 plus the noise.
\<close>

definition noisy_row :: "nat \<Rightarrow> vector \<Rightarrow> real \<Rightarrow> vector" where
  "noisy_row p r e = r @ [dot r (replicate p 3) + 1 + e]"

subsection \<open>Shapes\<close>

text \<open>
  The parameters of a model made by \<^verbatim>\<open>RegressionModel(p)\<close>: a weight of one row and \<open>p\<close>
  columns and a bias of one entry.
\<close>

definition layer_shape :: "RegressionModel \<Rightarrow> nat \<Rightarrow> bool" where
  "layer_shape m p =
     (shape (weight (linear_layer m)) = Dims2 [p] \<and> shape (bias (linear_layer m)) = Dims1 1)"

text \<open>
  The four parameters of the guide with their shapes, and a parameter store that holds
  nothing else: every entry is one of the four and has its shape.
\<close>

definition guide_param_shapes :: "(string \<times> dims) list" where
  "guide_param_shapes =
     [(''guide_mean_weight'', Dims2 [1]), (''guide_log_scale_weight'', Dims2 [1]),
      (''guide_mean_bias'', Dims1 1), (''guide_log_scale_bias'', Dims1 1)]"

definition guide_parameter_names :: "string list" where
  "guide_parameter_names = map fst guide_param_shapes"

definition store_ok :: "(string \<times> tensor) list \<Rightarrow> bool" where
  "store_ok st = list_all (\<lambda>(n, t). map_of guide_param_shapes n = Some (shape t)) st"

text \<open>
  A replay in which the two samples of the lifted module, when it has them, have the
  shapes of the weight and of the bias.
\<close>

definition replay_ok :: "handler \<Rightarrow> bool" where
  "replay_ok h =
     ((case replayed h ''module$$$linear.weight'' of None \<Rightarrow> True
       | Some v \<Rightarrow> shape v = Dims2 [1]) \<and>
      (case replayed h ''module$$$linear.bias'' of None \<Rightarrow> True
       | Some v \<Rightarrow> shape v = Dims1 1))"

text \<open>
  What \<^verbatim>\<open>pyro.param(name, init)\<close> returns on a store, the store it leaves, and the site of
  a sample.
\<close>

definition param_value :: "(string \<times> tensor) list \<Rightarrow> string \<Rightarrow> tensor \<Rightarrow> tensor" where
  "param_value st name init = (case map_of st name of Some v \<Rightarrow> v | None \<Rightarrow> init)"

definition register :: "(string \<times> tensor) list \<Rightarrow> string \<Rightarrow> tensor \<Rightarrow> (string \<times> tensor) list" where
  "register st name init = (case map_of st name of Some v \<Rightarrow> st | None \<Rightarrow> st @ [(name, init)])"

definition sample_site :: "string \<Rightarrow> normal_dist \<Rightarrow> tensor \<Rightarrow> site" where
  "sample_site name d v =
     \<lparr>site_kind = Sample_site, site_name = name, site_dist = Some d, site_value = v\<rparr>"

subsection \<open>Logs\<close>

text \<open>
  The prediction of a regression model with one output for a row of features, and the
  sum of squared errors of predictions against labels.
\<close>

definition predict :: "RegressionModel \<Rightarrow> vector \<Rightarrow> real" where
  "predict m r = dot r (entries (weight (linear_layer m))) + hd (entries (bias (linear_layer m)))"

definition sum_squared_errors :: "vector \<Rightarrow> vector \<Rightarrow> real" where
  "sum_squared_errors y_pred y_data = sum_list (map2 (\<lambda>p y. (p - y)\<^sup>2) y_pred y_data)"

text \<open>
  The log of iteration \<open>j\<close> of the point-estimate training, entered with the model \<open>m\<close>:
  the model is run on the features, the loss is the sum of squared errors of its
  predictions against the labels, then come \<^verbatim>\<open>zero_grad\<close>, \<^verbatim>\<open>backward\<close> and the optimizer
  step, and the loss is printed when \<open>j + 1\<close> is a multiple of 50.
\<close>

definition iteration_events :: "matrix \<Rightarrow> vector \<Rightarrow> nat \<Rightarrow> RegressionModel \<Rightarrow> event list" where
  "iteration_events x_data y_data j m =
     [Call_regression_model m x_data,
      Call_loss_fn (Vec (map (predict m) x_data)) (Vec y_data)
        (sum_squared_errors (map (predict m) x_data) y_data),
      Call_zero_grad, Call_backward, Call_optim_step] @
     (if (j + 1) mod 50 = 0
      then [Print_iteration (j + 1) (sum_squared_errors (map (predict m) x_data) y_data)]
      else [])"

text \<open>
  The log of iteration \<open>j\<close> of the variational training whose step returned the loss
  \<open>l\<close>: the step is called with the data, the guide and the model are called with the
  same data, and the loss divided by \<open>N\<close> is printed when \<open>j\<close> is a multiple of 100.
\<close>

definition svi_iteration_events :: "matrix \<Rightarrow> nat \<Rightarrow> real \<Rightarrow> event list" where
  "svi_iteration_events data j l =
     [Call_svi_step (Some data), Call_guide (Some data), Call_model (Some data),
      Returned_loss l] @
     (if j mod 100 = 0 then [Print_iteration (j + 1) (l / real N)] else [])"

text \<open>
  The average over the sampled regressors of their predictions at each test input (the
  code divides the sum by 20), the mean squared error, and the log of one iteration of
  the evaluation that sampled the regressor \<open>r\<close>.
\<close>

definition averaged_predictions :: "RegressionModel list \<Rightarrow> vector \<Rightarrow> vector" where
  "averaged_predictions rs xs = map (\<lambda>x. sum_list (map (\<lambda>r. predict r [x]) rs) / 20) xs"

definition mean_squared_error :: "vector \<Rightarrow> vector \<Rightarrow> real" where
  "mean_squared_error ps ys = sum_list (map2 (\<lambda>p y. (p - y)\<^sup>2) ps ys) / real (length ps)"

definition evaluation_events :: "RegressionModel \<Rightarrow> event list" where
  "evaluation_events r =
     [Call_guide None, Returned_regressor r,
      Call_regression_model r (map (\<lambda>x. [x]) test_X)]"

definition print_parameter_events :: "(string \<times> tensor) list \<Rightarrow> event list" where
  "print_parameter_events ps = map (\<lambda>(name, t). Print_parameter name (hd (entries t))) ps"

definition print_store_events :: "(string \<times> tensor) list \<Rightarrow> event list" where
  "print_store_events st = map (\<lambda>(name, t). Print_store_entry name (hd (entries t))) st"

text \<open>The optimizer steps and the inference steps of a log.\<close>

fun is_optim_step :: "event \<Rightarrow> bool" where
  "is_optim_step Call_optim_step = True"
| "is_optim_step _ = False"

fun is_svi_step :: "event \<Rightarrow> bool" where
  "is_svi_step (Call_svi_step d) = True"
| "is_svi_step _ = False"

definition training_steps :: "event list \<Rightarrow> nat" where
  "training_steps evs = length (filter is_optim_step evs)"

definition inference_steps :: "event list \<Rightarrow> nat" where
  "inference_steps evs = length (filter is_svi_step evs)"

subsection \<open>Storage\<close>



subsection \<open>State carried from one cell to the next\<close>

text \<open>
  Two states agree on what is carried when they have the same generator state, the
  same module parameters with their gradients, the same parameter store, the same log
  and the same storage; they may differ in the two optimizers, the recorded trace, the
  last sampled regressor and the sum of predictions. Two results are the same up to a
  relation of the states when both are the same error, or both return the same value
  and related states. A program runs alike from \<open>P\<close> to \<open>Q\<close> when from states related by
  \<open>P\<close> its two results are the same up to \<open>Q\<close>.
\<close>

definition carried :: "('g, 'o) world \<Rightarrow> ('g, 'o) world \<Rightarrow> bool" where
  "carried w1 w2 =
     (rng w1 = rng w2 \<and> regression_model w1 = regression_model w2
      \<and> weight_grad w1 = weight_grad w2 \<and> bias_grad w1 = bias_grad w2
      \<and> param_store w1 = param_store w2 \<and> events w1 = events w2
      \<and> storage w1 = storage w2)"

definition same_result ::
  "(('g, 'o) world \<Rightarrow> ('g, 'o) world \<Rightarrow> bool)
     \<Rightarrow> error + ('a \<times> ('g, 'o) world) \<Rightarrow> error + ('a \<times> ('g, 'o) world) \<Rightarrow> bool" where
  "same_result Q r1 r2 =
     (case (r1, r2) of
        (Inl e1, Inl e2) \<Rightarrow> e1 = e2
      | (Inr (x1, w1), Inr (x2, w2)) \<Rightarrow> x1 = x2 \<and> Q w1 w2
      | _ \<Rightarrow> False)"

definition runs_alike ::
  "(('g, 'o) world \<Rightarrow> ('g, 'o) world \<Rightarrow> bool)
     \<Rightarrow> (('g, 'o) world \<Rightarrow> error + ('a \<times> ('g, 'o) world))
     \<Rightarrow> (('g, 'o) world \<Rightarrow> ('g, 'o) world \<Rightarrow> bool) \<Rightarrow> bool" where
  "runs_alike P m Q = (\<forall>w1 w2. P w1 w2 \<longrightarrow> same_result Q (m w1) (m w2))"

text \<open>
  A relation is stable when related states agree on what is carried and stay related
  under the updates the pyro primitives and the prints make, the same on both sides.
\<close>

definition stable :: "(('g, 'o) world \<Rightarrow> ('g, 'o) world \<Rightarrow> bool) \<Rightarrow> bool" where
  "stable P =
     ((\<forall>w1 w2. P w1 w2 \<longrightarrow> carried w1 w2)
      \<and> (\<forall>w1 w2 g. P w1 w2 \<longrightarrow> P (w1\<lparr>rng := g\<rparr>) (w2\<lparr>rng := g\<rparr>))
      \<and> (\<forall>w1 w2 s. P w1 w2 \<longrightarrow> P (w1\<lparr>param_store := s\<rparr>) (w2\<lparr>param_store := s\<rparr>))
      \<and> (\<forall>w1 w2 s. P w1 w2 \<longrightarrow> P (record_site s w1) (record_site s w2))
      \<and> (\<forall>w1 w2 ev. P w1 w2 \<longrightarrow>
            P (w1\<lparr>events := events w1 @ [ev]\<rparr>) (w2\<lparr>events := events w2 @ [ev]\<rparr>))
      \<and> (\<forall>w1 w2 r. P w1 w2 \<longrightarrow>
            P (w1\<lparr>sampled_reg_model := r\<rparr>) (w2\<lparr>sampled_reg_model := r\<rparr>)))"





section \<open>The toy dataset: value and shape\<close>

lemma linear_dataset_tensor_value:
  assumes "draw_shapes lib N' p s g"
  shows "linear_dataset_tensor lib N' p s g =
     Inr (map2 (noisy_row p) (drawn_X lib N' p g) (drawn_eps lib N' p s g),
          snd (np_random_normal lib 0 s N' (snd (np_random_rand lib N' p g))))"
proof -
  obtain X g1 where r: "np_random_rand lib N' p g = (X, g1)"
    by (cases "np_random_rand lib N' p g")
  obtain eps g2 where n: "np_random_normal lib 0 s N' g1 = (eps, g2)"
    by (cases "np_random_normal lib 0 s N' g1")
  have X: "length X = N'" "list_all (\<lambda>r. length r = p) X" and e: "length eps = N'"
    using assms r n by (simp_all add: draw_shapes_def drawn_X_def drawn_eps_def)
  have mm: "np_matmul X (scale_vector 3 (np_ones p)) = Inr (map (\<lambda>r. dot r (replicate p 3)) X)"
    using X by (simp add: np_matmul_def scale_vector_def np_ones_def)
  have a1: "np_add (map (\<lambda>r. dot r (replicate p 3)) X) (np_repeat 1 N')
      = Inr (map (\<lambda>r. dot r (replicate p 3) + 1) X)"
    using X(1) by (simp add: np_add_def np_repeat_def list_eq_iff_nth_eq)
  have a2: "np_add (map (\<lambda>r. dot r (replicate p 3) + 1) X) eps
      = Inr (map2 (\<lambda>r e. dot r (replicate p 3) + 1 + e) X eps)"
    using X(1) e by (simp add: np_add_def list_eq_iff_nth_eq)
  have rs: "np_reshape_column (map2 (\<lambda>r e. dot r (replicate p 3) + 1 + e) X eps) N'
      = Inr (map (\<lambda>v. [v]) (map2 (\<lambda>r e. dot r (replicate p 3) + 1 + e) X eps))"
    using X(1) e by (simp add: np_reshape_column_def)
  have cat: "torch_cat_columns (torch_tensor X)
        (torch_tensor (map (\<lambda>v. [v]) (map2 (\<lambda>r e. dot r (replicate p 3) + 1 + e) X eps)))
      = Inr (map2 (noisy_row p) X eps)"
    using X(1) e
    by (simp add: torch_cat_columns_def torch_tensor_def noisy_row_def list_eq_iff_nth_eq)
  show ?thesis
    using r n
    by (simp add: linear_dataset_tensor_def mm a1 a2 rs cat drawn_X_def drawn_eps_def
        del: map_map)
qed

lemma noisy_rows_shape:
  assumes "draw_shapes lib N' p s g"
  shows "has_shape (map2 (noisy_row p) (drawn_X lib N' p g) (drawn_eps lib N' p s g)) (N', p + 1)"
proof -
  have "\<And>i. i < N' \<Longrightarrow> length (drawn_X lib N' p g ! i) = p"
    using assms by (simp add: draw_shapes_def list_all_length)
  then show ?thesis
    using assms by (simp add: draw_shapes_def list_all_length noisy_row_def)
qed

lemma build_linear_dataset_value:
  assumes "draw_shapes lib N' p s g"
  shows "build_linear_dataset lib N' p s g =
     Inr (map2 (noisy_row p) (drawn_X lib N' p g) (drawn_eps lib N' p s g),
          snd (np_random_normal lib 0 s N' (snd (np_random_rand lib N' p g))))"
  using noisy_rows_shape [OF assms]
  by (simp add: build_linear_dataset_def linear_dataset_tensor_value [OF assms])

lemma demo_draw_shapes: "draw_shapes demo_library n p s g"
  by (simp add: draw_shapes_def drawn_X_def drawn_eps_def demo_library_def list_all_iff)

lemma demo_drawn_X: "drawn_X demo_library 2 1 0 = [[1 / 2], [1 / 3]]"
  by (simp add: drawn_X_def demo_library_def upt_rec)

lemma demo_drawn_eps: "drawn_eps demo_library 2 1 (1 / 100) 0 = [1 / 100, - (1 / 100)]"
  by (simp add: drawn_eps_def demo_library_def upt_rec)

lemma linear_dataset_tensor_shape:
  assumes "linear_dataset_tensor lib n p s g = Inr (data, g')"
  shows "has_shape data (n, p + 1)"
proof -
  obtain X g1 where r: "np_random_rand lib n p g = (X, g1)"
    by (cases "np_random_rand lib n p g")
  from assms r obtain Xw where mm: "np_matmul X (scale_vector 3 (np_ones p)) = Inr Xw"
    by (auto simp: linear_dataset_tensor_def split: sum.splits)
  then have rows: "list_all (\<lambda>r. length r = p) X"
    by (simp add: np_matmul_def scale_vector_def np_ones_def split: if_splits)
  from assms r mm obtain ycol where "torch_cat_columns (torch_tensor X) (torch_tensor ycol) = Inr data"
    and "\<exists>y. np_reshape_column y n = Inr ycol"
    by (auto simp: linear_dataset_tensor_def split: sum.splits prod.splits)
  then have "length X = length ycol" and d: "data = map2 (\<lambda>r s. r @ s) X ycol"
    and "length ycol = n" and "list_all (\<lambda>r. length r = 1) ycol"
    by (auto simp: torch_cat_columns_def torch_tensor_def np_reshape_column_def list_all_iff
        split: if_splits)
  with rows show ?thesis
    by (simp add: d list_all_length)
qed

lemma linear_dataset_tensor_errors:
  "linear_dataset_tensor lib n p s g \<noteq> Inl AssertionError"
  by (auto simp: linear_dataset_tensor_def np_matmul_def np_add_def np_reshape_column_def
      torch_cat_columns_def Let_def split: sum.splits prod.splits if_splits)

lemma assertion_never_fails: "build_linear_dataset lib n p s g \<noteq> Inl AssertionError"
  using linear_dataset_tensor_shape [of lib n p s g] linear_dataset_tensor_errors [of lib n p s g]
  by (auto simp: build_linear_dataset_def split: sum.splits)

text \<open>
  C1. For every \<open>N \<ge> 1\<close> and \<open>p \<ge> 1\<close> and every draw of the random sources (a feature
  matrix of \<open>N\<close> rows and \<open>p\<close> columns from \<^verbatim>\<open>np.random.rand(N, p)\<close> and a noise vector of
  \<open>N\<close> entries from \<^verbatim>\<open>np.random.normal(0, noise_std, size=N)\<close>),
  \<open>build_linear_dataset N p noise_std\<close> returns a tensor of shape \<open>(N, p + 1)\<close> whose
  first \<open>p\<close> columns are the drawn feature matrix \<open>X\<close> and whose last column is, row by
  row, \<open>X \<cdot> w + 1 + eps\<close> with every one of the \<open>p\<close> components of \<open>w\<close> equal to 3, the
  bias 1 and \<open>eps\<close> the noise drawn with mean 0 and standard deviation \<open>noise_std\<close>.
\<close>

theorem build_linear_dataset_columns:
  assumes "1 \<le> N'" and "1 \<le> p" and "draw_shapes lib N' p noise_std g"
  shows "\<exists>data g'. build_linear_dataset lib N' p noise_std g = Inr (data, g')
     \<and> has_shape data (N', p + 1)
     \<and> map (take p) data = drawn_X lib N' p g
     \<and> map (\<lambda>r. r ! p) data =
         map2 (\<lambda>x e. dot x (replicate p 3) + 1 + e)
           (drawn_X lib N' p g) (drawn_eps lib N' p noise_std g)"
proof -
  let ?X = "drawn_X lib N' p g" and ?eps = "drawn_eps lib N' p noise_std g"
  let ?data = "map2 (noisy_row p) ?X ?eps"
  have X: "length ?X = N'" "list_all (\<lambda>r. length r = p) ?X" and e: "length ?eps = N'"
    using assms(3) by (simp_all add: draw_shapes_def)
  have row: "\<And>i. i < N' \<Longrightarrow> length (?X ! i) = p"
    using X by (simp add: list_all_length)
  have c1: "map (take p) ?data = ?X"
    using X e row by (simp add: list_eq_iff_nth_eq noisy_row_def)
  have c2: "map (\<lambda>r. r ! p) ?data = map2 (\<lambda>x e. dot x (replicate p 3) + 1 + e) ?X ?eps"
    using X e row by (simp add: list_eq_iff_nth_eq noisy_row_def nth_append)
  from build_linear_dataset_value [OF assms(3)] noisy_rows_shape [OF assms(3)] c1 c2
  show ?thesis by blast
qed

theorem build_linear_dataset_columns_witness:
  "(1::nat) \<le> 2 \<and> (1::nat) \<le> 1 \<and> draw_shapes demo_library 2 1 (1 / 100) 0
   \<and> (\<exists>data g'. build_linear_dataset demo_library 2 1 (1 / 100) 0 = Inr (data, g')
     \<and> has_shape data (2, 2)
     \<and> map (take 1) data = [[1 / 2], [1 / 3]]
     \<and> map (\<lambda>r. r ! 1) data = [251 / 100, 199 / 100])"
proof -
  have d: "draw_shapes demo_library 2 1 (1 / 100) 0"
    by (rule demo_draw_shapes)
  have "(1::nat) \<le> 2" and "(1::nat) \<le> 1"
    by simp_all
  from build_linear_dataset_columns [OF this d, unfolded demo_drawn_X demo_drawn_eps]
  show ?thesis
    using d by (simp add: dot_def numeral_2_eq_2)
qed

text \<open>
  C9. The assertion \<^verbatim>\<open>data.shape == (N, p + 1)\<close> of \<open>build_linear_dataset\<close> holds whenever
  it is reached, so the function never raises the assertion error; and for every
  \<open>N \<ge> 1\<close> and \<open>p \<ge> 1\<close> and every draw of the random sources of the shapes asked for,
  the function returns normally, with a tensor of shape \<open>(N, p + 1)\<close>.
\<close>

theorem build_linear_dataset_assertion_holds:
  "build_linear_dataset lib N' p noise_std g \<noteq> Inl AssertionError
   \<and> (\<forall>data g'. linear_dataset_tensor lib N' p noise_std g = Inr (data, g')
         \<longrightarrow> has_shape data (N', p + 1))
   \<and> (1 \<le> N' \<and> 1 \<le> p \<and> draw_shapes lib N' p noise_std g
         \<longrightarrow> (\<exists>data g'. build_linear_dataset lib N' p noise_std g = Inr (data, g')
               \<and> has_shape data (N', p + 1)))"
proof (intro conjI allI impI)
  show "build_linear_dataset lib N' p noise_std g \<noteq> Inl AssertionError"
    by (rule assertion_never_fails)
  show "has_shape data (N', p + 1)"
    if "linear_dataset_tensor lib N' p noise_std g = Inr (data, g')" for data g'
    using that by (rule linear_dataset_tensor_shape)
  show "\<exists>data g'. build_linear_dataset lib N' p noise_std g = Inr (data, g')
               \<and> has_shape data (N', p + 1)"
    if "1 \<le> N' \<and> 1 \<le> p \<and> draw_shapes lib N' p noise_std g"
    using build_linear_dataset_value [of lib N' p noise_std g]
      noisy_rows_shape [of lib N' p noise_std g] that
    by blast
qed

theorem build_linear_dataset_assertion_holds_witness:
  "(1::nat) \<le> 3 \<and> (1::nat) \<le> 2 \<and> draw_shapes demo_library 3 2 (1 / 100) 5
   \<and> (\<exists>data g'. linear_dataset_tensor demo_library 3 2 (1 / 100) 5 = Inr (data, g')
     \<and> has_shape data (3, 2 + 1)
     \<and> build_linear_dataset demo_library 3 2 (1 / 100) 5 = Inr (data, g'))
   \<and> build_linear_dataset broken_library 3 2 (1 / 100) 5 = Inl ValueError
   \<and> build_linear_dataset broken_library 3 2 (1 / 100) 5 \<noteq> Inl AssertionError"
proof -
  have d: "draw_shapes demo_library 3 2 (1 / 100) 5"
    by (rule demo_draw_shapes)
  note t = build_linear_dataset_assertion_holds [of demo_library 3 2 "1 / 100" 5]
  note u = build_linear_dataset_assertion_holds [of broken_library 3 2 "1 / 100" 5]
  obtain data g' where b: "build_linear_dataset demo_library 3 2 (1 / 100) 5 = Inr (data, g')"
    and h: "has_shape data (3, 2 + 1)"
    using t d by auto
  from b h have l: "linear_dataset_tensor demo_library 3 2 (1 / 100) 5 = Inr (data, g')"
    by (auto simp: build_linear_dataset_def split: sum.splits if_splits)
  have v: "build_linear_dataset broken_library 3 2 (1 / 100) 5 = Inl ValueError"
    by (simp add: build_linear_dataset_def linear_dataset_tensor_def broken_library_def
        demo_library_def np_matmul_def scale_vector_def np_ones_def np_add_def np_repeat_def)
  show ?thesis
    using d b h l v u by auto
qed

section \<open>The regression model\<close>

lemma draw_list_one: "draw_list d (Suc 0) g = ([fst (d g)], snd (d g))"
  by (simp add: prod.case_eq_if)

lemma draw_rows_one: "draw_rows d (Suc 0) (Suc 0) g = ([[fst (d g)]], snd (d g))"
  by (simp add: prod.case_eq_if)

lemma RegressionModel_init_one:
  "fst (RegressionModel_init lib (Suc 0) g) =
     \<lparr>linear_layer =
        \<lparr>weight = Mat [[fst (nn_init_uniform lib (Suc 0) g)]],
         bias = Vec [fst (nn_init_uniform lib (Suc 0) (snd (nn_init_uniform lib (Suc 0) g)))]\<rparr>\<rparr>"
  by (simp add: RegressionModel_init_def nn_Linear_def prod.case_eq_if)

lemma forward_one_feature:
  "forward \<lparr>linear_layer = \<lparr>weight = Mat [[w]], bias = Vec [b]\<rparr>\<rparr> (map (\<lambda>x. [x]) xs)
     = Inr (map (\<lambda>x. [x * w + b]) xs)"
  by (simp add: forward_def dot_def list_all_iff)

text \<open>
  C5. \<^verbatim>\<open>RegressionModel(1)\<close> has one linear layer with exactly two learnable parameters,
  a weight of one row and one column and a bias of one entry, two scalars in all, and
  its forward method returns \<open>x * w + b\<close> for every row \<open>x\<close> of its input and nothing else.
\<close>

theorem regression_model_two_parameters:
  "\<exists>w b. named_parameters (fst (RegressionModel_init lib 1 g))
             = [(''linear.weight'', Mat [[w]]), (''linear.bias'', Vec [b])]
     \<and> concat (map (\<lambda>(name, t). entries t) (named_parameters (fst (RegressionModel_init lib 1 g))))
             = [w, b]
     \<and> (\<forall>xs. forward (fst (RegressionModel_init lib 1 g)) (map (\<lambda>x. [x]) xs)
             = Inr (map (\<lambda>x. [x * w + b]) xs))"
  by (simp add: RegressionModel_init_one named_parameters_def forward_one_feature)

theorem regression_model_two_parameters_witness:
  "named_parameters (fst (RegressionModel_init demo_library 1 0))
      = [(''linear.weight'', Mat [[1 / 2]]), (''linear.bias'', Vec [1 / 3])]
   \<and> forward (fst (RegressionModel_init demo_library 1 0)) [[6], [7]] = Inr [[10 / 3], [23 / 6]]"
proof -
  obtain w b where p: "named_parameters (fst (RegressionModel_init demo_library 1 0))
             = [(''linear.weight'', Mat [[w]]), (''linear.bias'', Vec [b])]"
    and f: "\<And>xs. forward (fst (RegressionModel_init demo_library 1 0)) (map (\<lambda>x. [x]) xs)
             = Inr (map (\<lambda>x. [x * w + b]) xs)"
    using regression_model_two_parameters [of demo_library 0] by blast
  have v: "named_parameters (fst (RegressionModel_init demo_library 1 0))
      = [(''linear.weight'', Mat [[1 / 2]]), (''linear.bias'', Vec [1 / 3])]"
    by (simp add: RegressionModel_init_one named_parameters_def demo_library_def)
  from p v have wb: "w = 1 / 2" "b = 1 / 3" by simp_all
  from f [of "[6, 7]"] wb v show ?thesis by simp
qed

section \<open>Point-estimate training\<close>

lemma draw_eq: "draw d w = Inr (fst (d (rng w)), w\<lparr>rng := snd (d (rng w))\<rparr>)"
  by (simp add: draw_def prod.case_eq_if)

lemmas prog_defs = seq_def then_do_def ret_def lift_def reads_def modify_def emit_def raise_def
  assert_def

lemma length_map_indexed [simp]: "length (map_indexed f k v) = length v"
  by (simp add: map_indexed_def)

lemma shape_map_entries [simp]: "shape (map_entries f t) = shape t"
  by (cases t) (auto simp: list_eq_iff_nth_eq nth_enumerate_eq)

lemma shape_Dims2_one: "shape t = Dims2 [p] \<longleftrightarrow> (\<exists>row. t = Mat [row] \<and> length row = p)"
  by (cases t) (auto simp: map_eq_Cons_conv)

lemma shape_Dims1_one: "shape t = Dims1 (Suc 0) \<longleftrightarrow> (\<exists>b. t = Vec [b])"
  by (cases t) (auto simp: length_Suc_conv)

lemma layer_shapeE:
  assumes "layer_shape m p"
  obtains row b where "weight (linear_layer m) = Mat [row]" "length row = p"
    "bias (linear_layer m) = Vec [b]"
  using assms by (auto simp: layer_shape_def shape_Dims2_one shape_Dims1_one)

lemma forward_layer:
  assumes "weight (linear_layer m) = Mat [row]" "bias (linear_layer m) = Vec [b]"
    and "list_all (\<lambda>r. length r = length row) x"
  shows "forward m x = Inr (map (\<lambda>r. [dot r row + b]) x)"
  using assms by (simp add: forward_def list_all_iff)

lemma squeeze_last_columns: "squeeze_last (map (\<lambda>r. [f r]) x) = Vec (map f x)"
  by (simp add: squeeze_last_def list_all_iff comp_def)

lemma shape_adam_tensor [simp]: "shape (adam_tensor lib opt name t g) = shape t"
  by (simp add: adam_tensor_def split: option.splits)

lemma layer_shape_optim_step [simp]:
  "layer_shape (regression_model (optim_step lib w)) p = layer_shape (regression_model w) p"
  by (simp add: optim_step_def layer_shape_def Let_def)

lemma regression_model_backward [simp]:
  "regression_model (backward x yp y w) = regression_model w"
  by (simp add: backward_def Let_def)

lemma regression_model_zero_grad [simp]: "regression_model (zero_grad w) = regression_model w"
  by (simp add: zero_grad_def)

lemma events_optim_step [simp]: "events (optim_step lib w) = events w"
  by (simp add: optim_step_def Let_def)

lemma events_backward [simp]: "events (backward x yp y w) = events w"
  by (simp add: backward_def Let_def)

lemma events_zero_grad [simp]: "events (zero_grad w) = events w"
  by (simp add: zero_grad_def)

lemma rng_optim_step [simp]: "rng (optim_step lib w) = rng w"
  by (simp add: optim_step_def Let_def)

lemma rng_backward [simp]: "rng (backward x yp y w) = rng w"
  by (simp add: backward_def Let_def)

lemma rng_zero_grad [simp]: "rng (zero_grad w) = rng w"
  by (simp add: zero_grad_def)

lemma train_iteration_result:
  assumes m: "layer_shape (regression_model w) p"
    and x: "list_all (\<lambda>r. length r = p) x_data" and y: "length y_data = length x_data"
  shows "\<exists>w'. train_iteration lib x_data y_data j w = Inr ((), w')
     \<and> events w' = events w @ iteration_events x_data y_data j (regression_model w)
     \<and> layer_shape (regression_model w') p \<and> rng w' = rng w"
proof -
  obtain row b where wb: "weight (linear_layer (regression_model w)) = Mat [row]"
    "length row = p" "bias (linear_layer (regression_model w)) = Vec [b]"
    using m by (rule layer_shapeE)
  have p: "predict (regression_model w) = (\<lambda>r. dot r row + b)"
    using wb by (simp add: predict_def fun_eq_iff)
  have f: "forward (regression_model w) x_data = Inr (map (\<lambda>r. [dot r row + b]) x_data)"
    using wb x by (simp add: forward_layer)
  have l: "loss_fn (Vec (map (\<lambda>r. dot r row + b) x_data)) (Vec y_data) =
      Inr (sum_squared_errors (map (\<lambda>r. dot r row + b) x_data) y_data)"
    using y by (simp add: loss_fn_def MSELoss_def same_shape_def sum_squared_errors_def)
  show ?thesis
    using m
    by (simp add: train_iteration_def prog_defs f squeeze_last_columns l Let_def
        iteration_events_def p del: map_map)
qed

lemma for_range_events:
  assumes "I [] w"
    and step: "\<And>j w ls. j < n \<Longrightarrow> length ls = j \<Longrightarrow> I ls w \<Longrightarrow>
       \<exists>w' l. body j w = Inr ((), w') \<and> I (ls @ [l]) w' \<and> events w' = events w @ ev j l"
  shows "\<exists>w' ls. for_range n body w = Inr ((), w') \<and> I ls w' \<and> length ls = n
     \<and> events w' = events w @ concat (map2 ev [0..<n] ls)"
  using step
proof (induction n)
  case 0
  then show ?case using assms(1) by (simp add: ret_def)
next
  case (Suc n)
  have "\<exists>w' ls. for_range n body w = Inr ((), w') \<and> I ls w' \<and> length ls = n
     \<and> events w' = events w @ concat (map2 ev [0..<n] ls)"
    by (rule Suc.IH) (use Suc.prems in auto)
  then obtain w1 ls where r: "for_range n body w = Inr ((), w1)" and i: "I ls w1"
    and len: "length ls = n" and ev: "events w1 = events w @ concat (map2 ev [0..<n] ls)"
    by blast
  from Suc.prems [of n ls w1] len i
  obtain w2 l where b: "body n w1 = Inr ((), w2)" and i2: "I (ls @ [l]) w2"
    and ev2: "events w2 = events w1 @ ev n l"
    by auto
  have "for_range (Suc n) body w = Inr ((), w2)"
    using r b by (simp add: then_do_def seq_def)
  moreover have "events w2 = events w @ concat (map2 ev [0..<Suc n] (ls @ [l]))"
    using ev ev2 len by simp
  ultimately show ?case
    using i2 len by (intro exI [of _ w2] exI [of _ "ls @ [l]"]) simp
qed

lemma call_build_linear_dataset_result:
  assumes "draw_shapes lib n 1 (1 / 100) (rng w)"
  shows "\<exists>data g'. call_build_linear_dataset lib n w =
       Inr (data, w\<lparr>events := events w @ [Call_build_linear_dataset n], rng := g'\<rparr>)
     \<and> build_linear_dataset lib n 1 (1 / 100) (rng w) = Inr (data, g')
     \<and> length data = n \<and> list_all (\<lambda>r. length r = 2) data"
proof -
  let ?data = "map2 (noisy_row 1) (drawn_X lib n 1 (rng w)) (drawn_eps lib n 1 (1 / 100) (rng w))"
  let ?g = "snd (np_random_normal lib 0 (1 / 100) n (snd (np_random_rand lib n 1 (rng w))))"
  have "build_linear_dataset lib n 1 (1 / 100) (rng w) = Inr (?data, ?g)"
    by (rule build_linear_dataset_value [OF assms])
  moreover have "length ?data = n \<and> list_all (\<lambda>r. length r = 2) ?data"
    using noisy_rows_shape [OF assms] by (simp add: numeral_2_eq_2)
  ultimately show ?thesis
    by (intro exI [of _ ?data] exI [of _ ?g])
       (simp add: call_build_linear_dataset_def prog_defs)
qed

lemma for_each_print_parameters:
  assumes "layer_shape m (Suc 0)"
  shows "\<exists>w'. for_each (named_parameters m) print_parameter w = Inr ((), w')
     \<and> events w' = events w @
         map (\<lambda>(name, t). Print_parameter name (hd (entries t))) (named_parameters m)
     \<and> regression_model w' = regression_model w \<and> rng w' = rng w"
proof -
  obtain row b where wb: "weight (linear_layer m) = Mat [row]"
    "length row = Suc 0" "bias (linear_layer m) = Vec [b]"
    using assms by (rule layer_shapeE)
  then obtain a where "row = [a]"
    by (auto simp: length_Suc_conv)
  with wb show ?thesis
    by (simp add: named_parameters_def print_parameter_def format_scalar_def prog_defs)
qed

lemma columns_of_dataset:
  assumes "list_all (\<lambda>r. length r = 2) data"
  shows "list_all (\<lambda>r. length r = Suc 0) (all_but_last_column data)"
    and "last_column data = Inr (map last data)"
  using assms by (auto simp: all_but_last_column_def last_column_def list_all_iff)

lemma main_regression_result:
  fixes lib :: "('g, 'o) library" and w :: "('g, 'o) world"
  assumes d: "draw_shapes lib N 1 (1 / 100) (rng w)"
    and m: "layer_shape (regression_model w) 1"
  shows "\<exists>w' data ms. main_regression lib env w = Inr ((), w')
     \<and> build_linear_dataset lib N 1 (1 / 100) (rng w) = Inr (data, rng w')
     \<and> length ms = num_iterations env
     \<and> events w' = events w @ [Call_build_linear_dataset N] @
         concat (map2 (iteration_events (map butlast data) (map last data))
           [0..<num_iterations env] ms) @
         [Print_line ''Learned parameters:''] @
         map (\<lambda>(name, t). Print_parameter name (hd (entries t)))
           (named_parameters (regression_model w'))"
proof -
  obtain data g1 where c0: "call_build_linear_dataset lib N w =
       Inr (data, w\<lparr>events := events w @ [Call_build_linear_dataset N], rng := g1\<rparr>)"
    and b0: "build_linear_dataset lib N 1 (1 / 100) (rng w) = Inr (data, g1)"
    and sh: "list_all (\<lambda>r. length r = 2) data"
    using call_build_linear_dataset_result [OF d] by blast
  define w1 where "w1 = w\<lparr>events := events w @ [Call_build_linear_dataset N], rng := g1\<rparr>"
  have c: "call_build_linear_dataset lib N w = Inr (data, w1)"
    and b: "build_linear_dataset lib N 1 (1 / 100) (rng w) = Inr (data, rng w1)"
    and e1: "events w1 = events w @ [Call_build_linear_dataset N]"
    and m1: "regression_model w1 = regression_model w"
    using c0 b0 by (simp_all add: w1_def)
  let ?x = "map butlast data" and ?y = "map last data"
  let ?n = "num_iterations env"
  have x: "list_all (\<lambda>r. length r = Suc 0) ?x" and lc: "last_column data = Inr ?y"
    using columns_of_dataset [OF sh] by (simp_all add: all_but_last_column_def)
  let ?I = "\<lambda>(ls :: RegressionModel list) (w' :: ('g, 'o) world). layer_shape (regression_model w') (Suc 0) \<and> rng w' = rng w1"
  have "\<exists>w' ls. for_range ?n (train_iteration lib ?x ?y) w1 = Inr ((), w') \<and> ?I ls w'
     \<and> length ls = ?n
     \<and> events w' = events w1 @ concat (map2 (iteration_events ?x ?y) [0..<?n] ls)"
  proof (rule for_range_events)
    show "?I [] w1" using m m1 by simp
  next
    fix j w' and ls :: "RegressionModel list"
    assume "?I ls w'"
    with train_iteration_result [of w' "Suc 0" ?x ?y lib j] x
    show "\<exists>w'' l. train_iteration lib ?x ?y j w' = Inr ((), w'') \<and> ?I (ls @ [l]) w''
       \<and> events w'' = events w' @ iteration_events ?x ?y j l"
      by auto
  qed
  then obtain w2 ms where l: "for_range ?n (train_iteration lib ?x ?y) w1 = Inr ((), w2)"
    and m2: "layer_shape (regression_model w2) (Suc 0)" and g2: "rng w2 = rng w1"
    and len: "length ms = ?n"
    and e2: "events w2 = events w1 @ concat (map2 (iteration_events ?x ?y) [0..<?n] ms)"
    by blast
  let ?w3 = "w2\<lparr>events := events w2 @ [Print_line ''Learned parameters:'']\<rparr>"
  obtain w4 where p: "for_each (named_parameters (regression_model w2)) print_parameter ?w3
      = Inr ((), w4)"
    and e4: "events w4 = events ?w3 @
         map (\<lambda>(name, t). Print_parameter name (hd (entries t)))
           (named_parameters (regression_model w2))"
    and m4: "regression_model w4 = regression_model ?w3" and g4: "rng w4 = rng ?w3"
    using for_each_print_parameters [OF m2, of ?w3] by blast
  have "main_regression lib env w = Inr ((), w4)"
    using c lc l p by (simp add: main_regression_def prog_defs all_but_last_column_def)
  moreover have "events w4 = events w @ [Call_build_linear_dataset N] @
         concat (map2 (iteration_events ?x ?y) [0..<?n] ms) @
         [Print_line ''Learned parameters:''] @
         map (\<lambda>(name, t). Print_parameter name (hd (entries t)))
           (named_parameters (regression_model w4))"
    using e1 e2 e4 m4 by simp
  moreover have "build_linear_dataset lib N 1 (1 / 100) (rng w) = Inr (data, rng w4)"
    using b g2 g4 by simp
  ultimately show ?thesis
    using len by blast
qed


section \<open>The guide\<close>

lemma pyro_param_eq:
  "pyro_param name init w =
     Inr (param_value (param_store w) name init,
          w\<lparr>param_store := register (param_store w) name init,
            pyro_trace := pyro_trace w @
              [\<lparr>site_kind = Param_site, site_name = name, site_dist = None,
                site_value = param_value (param_store w) name init\<rparr>]\<rparr>)"
  by (simp add: pyro_param_def param_value_def register_def record_site_def split: option.splits)

lemma store_ok_lookup:
  "store_ok st \<Longrightarrow> map_of st n = Some t \<Longrightarrow> map_of guide_param_shapes n = Some (shape t)"
  by (auto simp: store_ok_def list_all_iff dest!: map_of_SomeD)

lemma shape_param_value:
  "store_ok st \<Longrightarrow> map_of guide_param_shapes n = Some (shape init) \<Longrightarrow>
   shape (param_value st n init) = shape init"
  by (auto simp: param_value_def split: option.splits dest: store_ok_lookup)

lemma store_ok_register:
  "store_ok st \<Longrightarrow> map_of guide_param_shapes n = Some (shape init) \<Longrightarrow>
   store_ok (register st n init)"
  by (auto simp: register_def store_ok_def split: option.splits)

lemma map_indexed_const: "map_indexed (\<lambda>k. f) k r = map f r"
  by (simp add: map_indexed_def list_eq_iff_nth_eq nth_enumerate_eq)

lemma map_enumerate_snd: "map (\<lambda>(i, y). h y) (List.enumerate n xs) = map h xs"
  by (simp add: list_eq_iff_nth_eq nth_enumerate_eq)

lemma names_register: "fst ` set (register st n init) = insert n (fst ` set st)"
  by (force simp: register_def split: option.splits dest!: map_of_SomeD)

lemma entries_map_entries_const: "entries (map_entries (\<lambda>k. f) t) = map f (entries t)"
  by (cases t) (simp_all add: map_indexed_const map_concat map_enumerate_snd)

lemma softplus1_pos: "0 < softplus1 x"
  by (simp add: softplus1_def ln_gt_zero)

lemma softplus_positive [simp]: "list_all (\<lambda>x. 0 < x) (entries (softplus t))"
  by (simp add: softplus_def entries_map_entries_const list_all_iff softplus1_pos)

lemma shape_softplus [simp]: "shape (softplus t) = shape t"
  by (simp add: softplus_def)

lemma shape_log_sig_init [simp]: "shape (log_sig_init t) = shape t"
  by (simp add: log_sig_init_def)

lemma shape_normal_rsample [simp]: "shape (fst (normal_rsample lib d g)) = shape (dist_loc d)"
  by (simp add: normal_rsample_def prod.case_eq_if)

lemma shape_torch_randn_1x1 [simp]: "shape (fst (torch_randn_1x1 lib g)) = Dims2 [Suc 0]"
  by (simp add: torch_randn_1x1_def prod.case_eq_if)

lemma shape_torch_randn_1 [simp]: "shape (fst (torch_randn_1 lib g)) = Dims1 (Suc 0)"
  by (simp add: torch_randn_1_def prod.case_eq_if)

lemma Normal_ok:
  "shape l = shape s \<Longrightarrow> list_all (\<lambda>x. 0 < x) (entries s) \<Longrightarrow>
   Normal l s = Inr \<lparr>dist_loc = l, dist_scale = s, event_dims = 0\<rparr>"
  by (simp add: Normal_def same_shape_def)

lemma guide_param_shape_simps [simp]:
  "map_of guide_param_shapes ''guide_mean_weight'' = Some (Dims2 [Suc 0])"
  "map_of guide_param_shapes ''guide_log_scale_weight'' = Some (Dims2 [Suc 0])"
  "map_of guide_param_shapes ''guide_mean_bias'' = Some (Dims1 (Suc 0))"
  "map_of guide_param_shapes ''guide_log_scale_bias'' = Some (Dims1 (Suc 0))"
  by (simp_all add: guide_param_shapes_def)

lemma replay_okD:
  assumes "replay_ok h"
  shows "replayed h ''module$$$linear.weight'' = Some v \<Longrightarrow> shape v = Dims2 [Suc 0]"
    and "replayed h ''module$$$linear.bias'' = Some v \<Longrightarrow> shape v = Dims1 (Suc 0)"
  using assms by (auto simp: replay_ok_def)

lemma replay_ok_Fresh [simp]: "replay_ok Fresh"
  by (simp add: replay_ok_def replayed_def)

lemma pyro_sample_result:
  assumes "replayed h name = None \<or> (\<exists>v. replayed h name = Some v \<and> shape v = shape (dist_loc d))"
  shows "\<exists>v g. pyro_sample lib h name d w =
       Inr (v, w\<lparr>rng := g, pyro_trace := pyro_trace w @ [sample_site name d v]\<rparr>)
     \<and> shape v = shape (dist_loc d)"
proof (cases "replayed h name")
  case None
  then show ?thesis
    by (intro exI [of _ "fst (normal_rsample lib d (rng w))"]
          exI [of _ "snd (normal_rsample lib d (rng w))"])
       (simp add: pyro_sample_def prog_defs draw_eq record_site_def sample_site_def)
next
  case (Some v)
  with assms have "shape v = shape (dist_loc d)" by simp
  with Some show ?thesis
    by (auto simp: pyro_sample_def prog_defs record_site_def sample_site_def
        intro!: exI [of _ "rng w"])
qed

lemma random_module_dict:
  fixes w :: "('g, 'o) world"
  assumes dw: "shape (dist_loc dw) = Dims2 [Suc 0]" and db: "shape (dist_loc db) = Dims1 (Suc 0)"
    and h: "replay_ok h"
  shows "\<exists>r g. random_module lib h ''module'' m [''linear.weight'' \<mapsto> dw, ''linear.bias'' \<mapsto> db] w =
       Inr (r, w\<lparr>rng := g, pyro_trace := pyro_trace w @
          [sample_site ''module$$$linear.weight'' dw (weight (linear_layer r)),
           sample_site ''module$$$linear.bias'' db (bias (linear_layer r))]\<rparr>)
     \<and> layer_shape r (Suc 0)"
proof -
  have 1: "replayed h ''module$$$linear.weight'' = None \<or>
      (\<exists>v. replayed h ''module$$$linear.weight'' = Some v \<and> shape v = shape (dist_loc dw))"
    using replay_okD(1) [OF h] dw by (cases "replayed h ''module$$$linear.weight''") auto
  have 2: "replayed h ''module$$$linear.bias'' = None \<or>
      (\<exists>v. replayed h ''module$$$linear.bias'' = Some v \<and> shape v = shape (dist_loc db))"
    using replay_okD(2) [OF h] db by (cases "replayed h ''module$$$linear.bias''") auto
  obtain v1 g1 where s1: "pyro_sample lib h ''module$$$linear.weight'' dw w =
       Inr (v1, w\<lparr>rng := g1, pyro_trace := pyro_trace w @
         [sample_site ''module$$$linear.weight'' dw v1]\<rparr>)"
    and v1: "shape v1 = shape (dist_loc dw)"
    using pyro_sample_result [OF 1, of lib w] by blast
  let ?w1 = "w\<lparr>rng := g1, pyro_trace := pyro_trace w @
         [sample_site ''module$$$linear.weight'' dw v1]\<rparr>"
  obtain v2 g2 where s2: "pyro_sample lib h ''module$$$linear.bias'' db ?w1 =
       Inr (v2, ?w1\<lparr>rng := g2, pyro_trace := pyro_trace ?w1 @
         [sample_site ''module$$$linear.bias'' db v2]\<rparr>)"
    and v2: "shape v2 = shape (dist_loc db)"
    using pyro_sample_result [OF 2, of lib ?w1] by blast
  show ?thesis
    using s1 s2 v1 v2 dw db
    by (intro exI [of _ "\<lparr>linear_layer = \<lparr>weight = v1, bias = v2\<rparr>\<rparr>"] exI [of _ g2])
       (simp add: random_module_def lift_parameter_def prog_defs layer_shape_def)
qed

lemma guide_result:
  fixes w :: "('g, 'o) world"
  assumes "store_ok (param_store w)"
  shows "\<exists>r g st tr. guide lib d w =
       Inr (r, w\<lparr>rng := g, param_store := st, pyro_trace := pyro_trace w @ tr\<rparr>)
     \<and> layer_shape r (Suc 0) \<and> store_ok st \<and> replay_ok (Replay tr)
     \<and> fst ` set st = fst ` set (param_store w) \<union> set guide_parameter_names"
proof -
  let ?z1 = "fst (torch_randn_1x1 lib (rng w))"
  let ?g1 = "snd (torch_randn_1x1 lib (rng w))"
  let ?z2 = "log_sig_init (fst (torch_randn_1x1 lib ?g1))"
  let ?g2 = "snd (torch_randn_1x1 lib ?g1)"
  let ?z3 = "fst (torch_randn_1 lib ?g2)"
  let ?g3 = "snd (torch_randn_1 lib ?g2)"
  let ?z4 = "log_sig_init (fst (torch_randn_1 lib ?g3))"
  let ?g4 = "snd (torch_randn_1 lib ?g3)"
  let ?s0 = "param_store w"
  let ?s1 = "register ?s0 ''guide_mean_weight'' ?z1"
  let ?s2 = "register ?s1 ''guide_log_scale_weight'' ?z2"
  let ?s3 = "register ?s2 ''guide_mean_bias'' ?z3"
  let ?s4 = "register ?s3 ''guide_log_scale_bias'' ?z4"
  let ?mw = "param_value ?s0 ''guide_mean_weight'' ?z1"
  let ?sw = "param_value ?s1 ''guide_log_scale_weight'' ?z2"
  let ?mb = "param_value ?s2 ''guide_mean_bias'' ?z3"
  let ?sb = "param_value ?s3 ''guide_log_scale_bias'' ?z4"
  let ?params = "[\<lparr>site_kind = Param_site, site_name = ''guide_mean_weight'', site_dist = None, site_value = ?mw\<rparr>,
     \<lparr>site_kind = Param_site, site_name = ''guide_log_scale_weight'', site_dist = None, site_value = ?sw\<rparr>,
     \<lparr>site_kind = Param_site, site_name = ''guide_mean_bias'', site_dist = None, site_value = ?mb\<rparr>,
     \<lparr>site_kind = Param_site, site_name = ''guide_log_scale_bias'', site_dist = None, site_value = ?sb\<rparr>]"
  let ?w4 = "w\<lparr>rng := ?g4, param_store := ?s4, pyro_trace := pyro_trace w @ ?params\<rparr>"
  let ?dw = "to_event (Suc 0) \<lparr>dist_loc = ?mw, dist_scale = softplus ?sw, event_dims = 0\<rparr>"
  let ?db = "to_event (Suc 0) \<lparr>dist_loc = ?mb, dist_scale = softplus ?sb, event_dims = 0\<rparr>"
  have s1: "store_ok ?s1" using assms by (simp add: store_ok_register)
  then have s2: "store_ok ?s2" by (simp add: store_ok_register)
  then have s3: "store_ok ?s3" by (simp add: store_ok_register)
  then have s4: "store_ok ?s4" by (simp add: store_ok_register)
  have mw: "shape ?mw = Dims2 [Suc 0]" using assms by (simp add: shape_param_value)
  have sw: "shape ?sw = Dims2 [Suc 0]" using s1 by (simp add: shape_param_value)
  have mb: "shape ?mb = Dims1 (Suc 0)" using s2 by (simp add: shape_param_value)
  have sb: "shape ?sb = Dims1 (Suc 0)" using s3 by (simp add: shape_param_value)
  have g: "guide lib d w = random_module lib Fresh ''module'' (regression_model w)
      [''linear.weight'' \<mapsto> ?dw, ''linear.bias'' \<mapsto> ?db] ?w4"
    using mw sw mb sb
    by (simp add: guide_def prog_defs draw_eq pyro_param_eq Let_def Normal_ok)
  obtain r g' where r: "random_module lib Fresh ''module'' (regression_model w)
      [''linear.weight'' \<mapsto> ?dw, ''linear.bias'' \<mapsto> ?db] ?w4 =
       Inr (r, ?w4\<lparr>rng := g', pyro_trace := pyro_trace ?w4 @
          [sample_site ''module$$$linear.weight'' ?dw (weight (linear_layer r)),
           sample_site ''module$$$linear.bias'' ?db (bias (linear_layer r))]\<rparr>)"
    and l: "layer_shape r (Suc 0)"
    using random_module_dict [of ?dw ?db Fresh lib "regression_model w" ?w4] mw mb
    by (auto simp: to_event_def)
  let ?tr = "?params @ [sample_site ''module$$$linear.weight'' ?dw (weight (linear_layer r)),
           sample_site ''module$$$linear.bias'' ?db (bias (linear_layer r))]"
  have "replay_ok (Replay ?tr)"
    using l by (simp add: replay_ok_def replayed_def sample_site_def layer_shape_def)
  moreover have "guide lib d w =
       Inr (r, w\<lparr>rng := g', param_store := ?s4, pyro_trace := pyro_trace w @ ?tr\<rparr>)"
    using g r by simp
  moreover have "fst ` set ?s4 = fst ` set (param_store w) \<union> set guide_parameter_names"
    by (auto simp: names_register guide_parameter_names_def guide_param_shapes_def)
  ultimately show ?thesis
    using l s4 by blast
qed

section \<open>Stochastic variational inference\<close>

lemma model_result:
  fixes w :: "('g, 'o) world"
  assumes h: "replay_ok h" and data: "list_all (\<lambda>r. length r = 2) data"
  shows "\<exists>w'. model lib h (Some data) w = Inr ((), w')
     \<and> param_store w' = param_store w \<and> events w' = events w
     \<and> svi_optim w' = svi_optim w"
proof -
  let ?dw = "to_event (Suc 0) \<lparr>dist_loc = Mat [[0]], dist_scale = Mat [[10]], event_dims = 0\<rparr>"
  let ?db = "to_event (Suc 0) \<lparr>dist_loc = Vec [0], dist_scale = Vec [10], event_dims = 0\<rparr>"
  let ?x = "map butlast data" and ?y = "map last data"
  obtain r g where r: "random_module lib h ''module'' (regression_model w)
      [''linear.weight'' \<mapsto> ?dw, ''linear.bias'' \<mapsto> ?db] w =
       Inr (r, w\<lparr>rng := g, pyro_trace := pyro_trace w @
          [sample_site ''module$$$linear.weight'' ?dw (weight (linear_layer r)),
           sample_site ''module$$$linear.bias'' ?db (bias (linear_layer r))]\<rparr>)"
    and l: "layer_shape r (Suc 0)"
    using random_module_dict [of ?dw ?db h lib "regression_model w" w] h
    by (auto simp: to_event_def)
  obtain row b where wb: "weight (linear_layer r) = Mat [row]"
    "length row = Suc 0" "bias (linear_layer r) = Vec [b]"
    using l by (rule layer_shapeE)
  have x: "list_all (\<lambda>r. length r = Suc 0) ?x" and lc: "last_column data = Inr ?y"
    using columns_of_dataset [OF data] by (simp_all add: all_but_last_column_def)
  have f: "forward r ?x = Inr (map (\<lambda>r. [dot r row + b]) ?x)"
    using wb x by (simp add: forward_layer)
  have n: "Normal (Vec (map (\<lambda>r. dot r row + b) ?x)) (Vec (replicate (length data) (1 / 10)))
     = Inr \<lparr>dist_loc = Vec (map (\<lambda>r. dot r row + b) ?x),
            dist_scale = Vec (replicate (length data) (1 / 10)), event_dims = 0\<rparr>"
    by (simp add: Normal_ok list_all_iff)
  show ?thesis
    using r lc f n
    by (simp add: model_def prog_defs Normal_ok Let_def subscriptable_def
        all_but_last_column_def squeeze_last_columns pyro_observe_def record_site_def
        del: map_map)
qed

lemma store_ok_svi_optim_step:
  "store_ok (param_store w) \<Longrightarrow> store_ok (param_store (svi_optim_step lib names grad w))"
  by (auto simp: svi_optim_step_def store_ok_def list_all_iff)

lemma events_svi_optim_step [simp]: "events (svi_optim_step lib names grad w) = events w"
  by (simp add: svi_optim_step_def)

lemma svi_step_result:
  fixes w :: "('g, 'o) world"
  assumes st: "store_ok (param_store w)" and data: "list_all (\<lambda>r. length r = 2) data"
  shows "\<exists>l w'. svi_step lib (svi lib) (Some data) w = Inr (l, w')
     \<and> store_ok (param_store w')
     \<and> events w' = events w @ [Call_guide (Some data), Call_model (Some data), Returned_loss l]"
proof -
  let ?w0 = "w\<lparr>pyro_trace := [], events := events w @ [Call_guide (Some data)]\<rparr>"
  obtain r g1 st1 tr1 where g: "guide lib (Some data) ?w0 =
       Inr (r, ?w0\<lparr>rng := g1, param_store := st1, pyro_trace := pyro_trace ?w0 @ tr1\<rparr>)"
    and s1: "store_ok st1" and h: "replay_ok (Replay tr1)"
    using guide_result [of ?w0 lib "Some data"] st by auto
  let ?w1 = "?w0\<lparr>rng := g1, param_store := st1, pyro_trace := [],
      events := events w @ [Call_guide (Some data), Call_model (Some data)]\<rparr>"
  obtain w2 where m: "model lib (Replay tr1) (Some data) ?w1 = Inr ((), w2)"
    and s2: "param_store w2 = param_store ?w1" and e2: "events w2 = events ?w1"
    using model_result [OF h data, of lib ?w1] by blast
  show ?thesis
    using g m s1 s2 e2
    by (simp add: svi_step_def svi_def prog_defs store_ok_svi_optim_step)
qed

lemma svi_iteration_result:
  fixes w :: "('g, 'o) world"
  assumes st: "store_ok (param_store w)" and data: "list_all (\<lambda>r. length r = 2) data"
  shows "\<exists>w' l. svi_iteration lib data j w = Inr ((), w')
     \<and> store_ok (param_store w')
     \<and> events w' = events w @ svi_iteration_events data j l"
proof -
  let ?w0 = "w\<lparr>events := events w @ [Call_svi_step (Some data)]\<rparr>"
  obtain l w1 where s: "svi_step lib (svi lib) (Some data) ?w0 = Inr (l, w1)"
    and s1: "store_ok (param_store w1)"
    and e1: "events w1 = events ?w0 @ [Call_guide (Some data), Call_model (Some data), Returned_loss l]"
    using svi_step_result [of ?w0 data lib] st data by auto
  show ?thesis
    using s s1 e1
    by (intro exI [of _ "if j mod 100 = 0
          then w1\<lparr>events := events w1 @ [Print_iteration (j + 1) (l / real N)]\<rparr> else w1"]
        exI [of _ l])
       (simp add: svi_iteration_def prog_defs svi_iteration_events_def)
qed

lemma main_svi_result:
  fixes lib :: "('g, 'o) library" and w :: "('g, 'o) world"
  assumes d: "draw_shapes lib N 1 (1 / 100) (rng w)"
  shows "\<exists>w' data g' ls. main_svi lib env w = Inr ((), w')
     \<and> build_linear_dataset lib N 1 (1 / 100) (rng w) = Inr (data, g')
     \<and> length ls = num_iterations env
     \<and> events w' = events w @ [Call_clear_param_store, Call_build_linear_dataset N] @
         concat (map2 (svi_iteration_events data) [0..<num_iterations env] ls)
     \<and> store_ok (param_store w')"
proof -
  let ?w0 = "w\<lparr>events := events w @ [Call_clear_param_store], param_store := []\<rparr>"
  obtain data g1 where c0: "call_build_linear_dataset lib N ?w0 =
       Inr (data, ?w0\<lparr>events := events ?w0 @ [Call_build_linear_dataset N], rng := g1\<rparr>)"
    and b: "build_linear_dataset lib N 1 (1 / 100) (rng w) = Inr (data, g1)"
    and sh: "list_all (\<lambda>r. length r = 2) data"
    using call_build_linear_dataset_result [of lib N ?w0] d by auto
  define w1 where "w1 = ?w0\<lparr>events := events ?w0 @ [Call_build_linear_dataset N], rng := g1\<rparr>"
  have c: "call_build_linear_dataset lib N ?w0 = Inr (data, w1)"
    and e1: "events w1 = events ?w0 @ [Call_build_linear_dataset N]"
    and s1: "param_store w1 = param_store ?w0"
    using c0 by (simp_all add: w1_def)
  let ?n = "num_iterations env"
  let ?I = "\<lambda>(ls :: real list) (w' :: ('g, 'o) world). store_ok (param_store w')"
  have "\<exists>w' ls. for_range ?n (svi_iteration lib data) w1 = Inr ((), w') \<and> ?I ls w'
     \<and> length ls = ?n
     \<and> events w' = events w1 @ concat (map2 (svi_iteration_events data) [0..<?n] ls)"
  proof (rule for_range_events)
    show "?I [] w1" using s1 by (simp add: store_ok_def)
  next
    fix j and w' :: "('g, 'o) world" and ls :: "real list"
    assume "?I ls w'"
    with svi_iteration_result [of w' data lib j] sh
    show "\<exists>w'' l. svi_iteration lib data j w' = Inr ((), w'') \<and> ?I (ls @ [l]) w''
       \<and> events w'' = events w' @ svi_iteration_events data j l"
      by auto
  qed
  then obtain w2 ls where l: "for_range ?n (svi_iteration lib data) w1 = Inr ((), w2)"
    and s2: "store_ok (param_store w2)"
    and len: "length ls = ?n"
    and e2: "events w2 = events w1 @ concat (map2 (svi_iteration_events data) [0..<?n] ls)"
    by blast
  have "main_svi lib env w = Inr ((), w2)"
    using c l by (simp add: main_svi_def clear_param_store_def prog_defs)
  moreover have "events w2 = events w @ [Call_clear_param_store, Call_build_linear_dataset N] @
         concat (map2 (svi_iteration_events data) [0..<?n] ls)"
    using e1 e2 by simp
  ultimately show ?thesis
    using b len s2 by blast
qed


section \<open>Validating results\<close>

lemma store_ok_scalar:
  assumes "map_of guide_param_shapes n = Some (shape t)"
  shows "format_scalar t = Inr (hd (entries t))"
proof -
  from assms have "shape t = Dims2 [Suc 0] \<or> shape t = Dims1 (Suc 0)"
    by (auto simp: guide_param_shapes_def split: if_splits)
  then show ?thesis
    by (auto simp: shape_Dims2_one shape_Dims1_one format_scalar_def length_Suc_conv)
qed

lemma for_each_print_store:
  fixes w :: "('g, 'o) world"
  assumes "store_ok st"
  shows "for_each st print_store_entry w =
     Inr ((), w\<lparr>events := events w @ map (\<lambda>(n, t). Print_store_entry n (hd (entries t))) st\<rparr>)"
  using assms
proof (induction st arbitrary: w)
  case Nil
  then show ?case by (simp add: ret_def)
next
  case (Cons a st)
  obtain n t where a: "a = (n, t)" by (cases a)
  from Cons.prems a have t: "format_scalar t = Inr (hd (entries t))" and st: "store_ok st"
    by (auto simp: store_ok_def intro: store_ok_scalar)
  show ?case
    using Cons.IH [OF st] a t by (simp add: print_store_entry_def prog_defs)
qed

lemma cell_print_store_result:
  fixes w :: "('g, 'o) world"
  assumes "store_ok (param_store w)"
  shows "cell_print_store w =
     Inr ((), w\<lparr>events := events w @
        map (\<lambda>(n, t). Print_store_entry n (hd (entries t))) (param_store w)\<rparr>)"
  using for_each_print_store [OF assms, of w] by (simp add: cell_print_store_def prog_defs)

lemma length_test_X [simp]: "length test_X = 20"
  by (simp add: test_X_def np_linspace_def)

lemma length_test_y [simp]: "length test_y = 20"
  by (simp add: test_y_def)


lemma evaluation_iteration_result:
  fixes w :: "('g, 'o) world"
  assumes st: "store_ok (param_store w)"
    and acc: "y_preds w = map (\<lambda>x. [sum_list (map (\<lambda>r. predict r [x]) rs)]) test_X"
  shows "\<exists>w' r. evaluation_iteration lib (map (\<lambda>x. [x]) test_X) i w = Inr ((), w')
     \<and> store_ok (param_store w')
     \<and> y_preds w' = map (\<lambda>x. [sum_list (map (\<lambda>r. predict r [x]) (rs @ [r]))]) test_X
     \<and> events w' = events w @ evaluation_events r"
proof -
  let ?w0 = "w\<lparr>events := events w @ [Call_guide None]\<rparr>"
  obtain r g1 st1 tr1 where g: "guide lib None ?w0 =
       Inr (r, ?w0\<lparr>rng := g1, param_store := st1, pyro_trace := pyro_trace ?w0 @ tr1\<rparr>)"
    and l: "layer_shape r (Suc 0)" and s1: "store_ok st1"
    using guide_result [of ?w0 lib None] st by auto
  obtain row b where wb: "weight (linear_layer r) = Mat [row]"
    "length row = Suc 0" "bias (linear_layer r) = Vec [b]"
    using l by (rule layer_shapeE)
  have p: "predict r = (\<lambda>x. dot x row + b)"
    using wb by (simp add: predict_def fun_eq_iff)
  have f: "forward r (map (\<lambda>x. [x]) test_X) = Inr (map (\<lambda>x. [predict r [x]]) test_X)"
    using wb by (simp add: forward_layer list_all_iff p comp_def)
  have a: "torch_add (map (\<lambda>x. [sum_list (map (\<lambda>r. predict r [x]) rs)]) test_X)
        (map (\<lambda>x. [predict r [x]]) test_X)
      = Inr (map (\<lambda>x. [sum_list (map (\<lambda>r. predict r [x]) (rs @ [r]))]) test_X)"
    by (simp add: torch_add_def comp_def list_eq_iff_nth_eq)
  show ?thesis
    using g f a s1 acc
    by (intro exI [of _ "w\<lparr>rng := g1, param_store := st1,
           pyro_trace := pyro_trace w @ tr1, sampled_reg_model := Some r,
           events := events w @ evaluation_events r,
           y_preds := map (\<lambda>x. [sum_list (map (\<lambda>r. predict r [x]) (rs @ [r]))]) test_X\<rparr>"]
         exI [of _ r])
       (simp add: evaluation_iteration_def prog_defs evaluation_events_def del: map_map)
qed

lemma cell_evaluation_result:
  fixes w :: "('g, 'o) world"
  assumes st: "store_ok (param_store w)"
  shows "\<exists>w' rs. cell_evaluation lib w = Inr ((), w') \<and> length rs = 20
     \<and> events w' = events w @ concat (map evaluation_events rs) @
         [Print_loss (mean_squared_error (averaged_predictions rs test_X) test_y)]"
proof -
  let ?x = "map (\<lambda>x. [x]) test_X"
  let ?w0 = "w\<lparr>y_preds := torch_zeros 20 1\<rparr>"
  let ?I = "\<lambda>rs (w' :: ('g, 'o) world). store_ok (param_store w')
     \<and> y_preds w' = map (\<lambda>x. [sum_list (map (\<lambda>r. predict r [x]) rs)]) test_X"
  have "\<exists>w' rs. for_range 20 (evaluation_iteration lib ?x) ?w0 = Inr ((), w') \<and> ?I rs w'
     \<and> length rs = 20
     \<and> events w' = events ?w0 @ concat (map2 (\<lambda>i. evaluation_events) [0..<20] rs)"
  proof (rule for_range_events)
    show "?I [] ?w0"
      using st by (simp add: torch_zeros_def list_eq_iff_nth_eq)
  next
    fix j and w' :: "('g, 'o) world" and rs :: "RegressionModel list"
    assume "?I rs w'"
    with evaluation_iteration_result [of w' rs lib j]
    show "\<exists>w'' r. evaluation_iteration lib ?x j w' = Inr ((), w'') \<and> ?I (rs @ [r]) w''
       \<and> events w'' = events w' @ evaluation_events r"
      by auto
  qed
  then obtain w1 rs where l: "for_range 20 (evaluation_iteration lib ?x) ?w0 = Inr ((), w1)"
    and y1: "y_preds w1 = map (\<lambda>x. [sum_list (map (\<lambda>r. predict r [x]) rs)]) test_X"
    and len: "length rs = 20"
    and e1: "events w1 = events ?w0 @ concat (map2 (\<lambda>i. evaluation_events) [0..<20] rs)"
    by blast
  have z: "map2 (\<lambda>i. evaluation_events) [0..<20] rs = map evaluation_events rs"
    using len by (simp add: list_eq_iff_nth_eq)
  let ?avg = "map (\<lambda>x. [sum_list (map (\<lambda>r. predict r [x]) rs) / 20]) test_X"
  have m: "MSELoss Reduce_mean (Mat ?avg) (Mat (map (\<lambda>v. [v]) test_y))
     = Inr (mean_squared_error (averaged_predictions rs test_X) test_y)"
    by (simp add: MSELoss_def same_shape_def comp_def mean_squared_error_def
        averaged_predictions_def Let_def concat_map_singleton map_replicate_const)
  have d: "map (map (\<lambda>v. v / 20)) (map (\<lambda>x. [sum_list (map (\<lambda>r. predict r [x]) rs)]) test_X)
      = ?avg"
    by simp
  have "cell_evaluation lib w = Inr ((), w1\<lparr>y_preds := ?avg,
      events := events w1 @ [Print_loss (mean_squared_error (averaged_predictions rs test_X) test_y)]\<rparr>)"
    using l y1 m
    by (simp add: cell_evaluation_def prog_defs np_reshape_column_def torch_tensor_def Let_def
        d del: map_map)
  then show ?thesis
    using len e1 z by (intro exI conjI) (assumption, simp_all)
qed

section \<open>The whole notebook\<close>

lemma cell_regression_model_result:
  fixes w :: "('g, 'o) world"
  shows "\<exists>m g. cell_regression_model lib w =
       Inr ((), w\<lparr>rng := g, regression_model := m, weight_grad := None, bias_grad := None\<rparr>)
     \<and> layer_shape m (Suc 0)"
  by (intro exI [of _ "fst (RegressionModel_init lib 1 (rng w))"]
        exI [of _ "snd (RegressionModel_init lib 1 (rng w))"])
     (simp add: cell_regression_model_def prog_defs draw_eq layer_shape_def
        RegressionModel_init_def nn_Linear_def prod.case_eq_if)

lemma cell_random_module_result:
  fixes w :: "('g, 'o) world"
  shows "\<exists>w'. cell_random_module lib w = Inr ((), w') \<and> events w' = events w
     \<and> regression_model w' = regression_model w"
proof -
  let ?prior = "\<lparr>dist_loc = Mat [[0]], dist_scale = Mat [[1]], event_dims = 0\<rparr>"
  have f: "replayed Fresh n = None" for n
    by (simp add: replayed_def)
  obtain v1 g1 where s1: "pyro_sample lib Fresh ''regression_module$$$linear.weight'' ?prior w =
       Inr (v1, w\<lparr>rng := g1, pyro_trace := pyro_trace w @
         [sample_site ''regression_module$$$linear.weight'' ?prior v1]\<rparr>)"
    using pyro_sample_result [of Fresh _ ?prior lib w] f by blast
  let ?w1 = "w\<lparr>rng := g1, pyro_trace := pyro_trace w @
         [sample_site ''regression_module$$$linear.weight'' ?prior v1]\<rparr>"
  obtain v2 g2 where s2: "pyro_sample lib Fresh ''regression_module$$$linear.bias'' ?prior ?w1 =
       Inr (v2, ?w1\<lparr>rng := g2, pyro_trace := pyro_trace ?w1 @
         [sample_site ''regression_module$$$linear.bias'' ?prior v2]\<rparr>)"
    using pyro_sample_result [of Fresh _ ?prior lib ?w1] f by blast
  show ?thesis
    using s1 s2
    by (simp add: cell_random_module_def prog_defs Normal_ok random_module_def
        lift_parameter_def)
qed

lemma filter_concat_map2:
  assumes "length ls = n" and "\<And>j l. length (filter P (f j l)) = k"
  shows "length (filter P (concat (map2 f [0..<n] ls))) = n * k"
  using assms(1)
proof (induction n arbitrary: ls)
  case 0
  then show ?case by simp
next
  case (Suc n)
  then obtain ls' l where ls: "ls = ls' @ [l]" and len: "length ls' = n"
    by (metis length_Suc_conv_rev)
  show ?case
    using Suc.IH [OF len] len assms(2) by (simp add: ls)
qed

lemma filter_concat_map:
  assumes "\<And>x. length (filter P (f x)) = k"
  shows "length (filter P (concat (map f xs))) = length xs * k"
  using assms by (induction xs) simp_all

lemma notebook_result:
  fixes lib :: "('g, 'o) library" and w :: "('g, 'o) world"
  assumes v: "startswith version ''0.3.0''" and c: "\<forall>g. draw_shapes lib N 1 (1 / 100) g"
  shows "\<exists>w' x y ms ps data ls st rs. notebook lib env version w = Inr ((), w')
     \<and> length ms = num_iterations env \<and> length ls = num_iterations env \<and> length rs = 20
     \<and> events w' = events w @
         ([Call_build_linear_dataset N] @
          concat (map2 (iteration_events x y) [0..<num_iterations env] ms) @
          [Print_line ''Learned parameters:''] @ print_parameter_events ps) @
         ([Call_clear_param_store, Call_build_linear_dataset N] @
          concat (map2 (svi_iteration_events data) [0..<num_iterations env] ls)) @
         print_store_events st @
         (concat (map evaluation_events rs) @
          [Print_loss (mean_squared_error (averaged_predictions rs test_X) test_y)])"
proof -
  have 1: "cell_setup version w = Inr ((), w)"
    using v by (simp add: cell_setup_def prog_defs)
  obtain m g where 2: "cell_regression_model lib w =
       Inr ((), w\<lparr>rng := g, regression_model := m, weight_grad := None, bias_grad := None\<rparr>)"
    and m: "layer_shape m (Suc 0)"
    using cell_regression_model_result [of lib w] by blast
  let ?w2 = "w\<lparr>rng := g, regression_model := m, weight_grad := None, bias_grad := None,
      optim := adam_init lib (5 / 100)\<rparr>"
  obtain w3 data1 ms where 3: "main_regression lib env ?w2 = Inr ((), w3)"
    and ms: "length ms = num_iterations env"
    and e3: "events w3 = events ?w2 @ [Call_build_linear_dataset N] @
         concat (map2 (iteration_events (map butlast data1) (map last data1))
           [0..<num_iterations env] ms) @
         [Print_line ''Learned parameters:''] @
         map (\<lambda>(name, t). Print_parameter name (hd (entries t)))
           (named_parameters (regression_model w3))"
    using main_regression_result [of lib ?w2 env] c m by auto
  obtain w4 where 4: "cell_random_module lib w3 = Inr ((), w4)" and e4: "events w4 = events w3"
    using cell_random_module_result [of lib w3] by blast
  let ?w4 = "w4\<lparr>svi_optim := adam_init lib (5 / 100)\<rparr>"
  obtain w5 data2 g5 ls where 5: "main_svi lib env ?w4 = Inr ((), w5)"
    and ls: "length ls = num_iterations env"
    and e5: "events w5 = events ?w4 @ [Call_clear_param_store, Call_build_linear_dataset N] @
         concat (map2 (svi_iteration_events data2) [0..<num_iterations env] ls)"
    and s5: "store_ok (param_store w5)"
    using main_svi_result [of lib ?w4 env] c by auto
  let ?w6 = "w5\<lparr>events := events w5 @
        map (\<lambda>(n, t). Print_store_entry n (hd (entries t))) (param_store w5)\<rparr>"
  have 6: "cell_print_store w5 = Inr ((), ?w6)"
    by (rule cell_print_store_result [OF s5])
  obtain w7 rs where 7: "cell_evaluation lib ?w6 = Inr ((), w7)" and rs: "length rs = 20"
    and e7: "events w7 = events ?w6 @ concat (map evaluation_events rs) @
         [Print_loss (mean_squared_error (averaged_predictions rs test_X) test_y)]"
    using cell_evaluation_result [of ?w6 lib] s5 by auto
  have "notebook lib env version w = Inr ((), w7)"
    using 1 2 3 4 5 6 7 by (simp add: notebook_def cell_training_def cell_inference_def prog_defs)
  moreover have "events w7 = events w @
         ([Call_build_linear_dataset N] @
          concat (map2 (iteration_events (map butlast data1) (map last data1))
            [0..<num_iterations env] ms) @
          [Print_line ''Learned parameters:''] @
          print_parameter_events (named_parameters (regression_model w3))) @
         ([Call_clear_param_store, Call_build_linear_dataset N] @
          concat (map2 (svi_iteration_events data2) [0..<num_iterations env] ls)) @
         print_store_events (param_store w5) @
         (concat (map evaluation_events rs) @
          [Print_loss (mean_squared_error (averaged_predictions rs test_X) test_y)])"
    using e3 e4 e5 e7 by (simp add: print_parameter_events_def print_store_events_def)
  ultimately show ?thesis
    using ms ls rs by blast
qed

lemma count_iteration_events [simp]:
  "length (filter is_optim_step (iteration_events x y j m)) = 1"
  "length (filter is_svi_step (iteration_events x y j m)) = 0"
  by (simp_all add: iteration_events_def)

lemma count_svi_iteration_events [simp]:
  "length (filter is_optim_step (svi_iteration_events d j l)) = 0"
  "length (filter is_svi_step (svi_iteration_events d j l)) = 1"
  by (simp_all add: svi_iteration_events_def)

lemma count_evaluation_events [simp]:
  "length (filter is_optim_step (evaluation_events r)) = 0"
  "length (filter is_svi_step (evaluation_events r)) = 0"
  by (simp_all add: evaluation_events_def)

lemma count_print_events [simp]:
  "filter is_optim_step (print_parameter_events ps) = []"
  "filter is_svi_step (print_parameter_events ps) = []"
  "filter is_optim_step (print_store_events ps) = []"
  "filter is_svi_step (print_store_events ps) = []"
  by (simp_all add: print_parameter_events_def print_store_events_def filter_map comp_def
      case_prod_beta)

text \<open>
  C6. A run of the notebook has two training loops: the point-estimate loop takes
  \<open>num_iterations\<close> optimizer steps and the variational loop \<open>num_iterations\<close> inference
  steps, and no other part of the run takes any; \<open>num_iterations\<close> is 2 when the
  environment has the variable \<^verbatim>\<open>CI\<close> and 1000 otherwise.
\<close>

theorem two_training_loops:
  fixes lib :: "('g, 'o) library" and w :: "('g, 'o) world"
  assumes v: "startswith version ''0.3.0''" and c: "\<forall>g. draw_shapes lib N 1 (1 / 100) g"
  shows "\<exists>w'. notebook lib env version w = Inr ((), w')
     \<and> training_steps (drop (length (events w)) (events w')) = num_iterations env
     \<and> inference_steps (drop (length (events w)) (events w')) = num_iterations env
     \<and> num_iterations env = (if env ''CI'' = None then 1000 else 2)"
proof -
  obtain w' x y ms ps data ls st rs where r: "notebook lib env version w = Inr ((), w')"
    and ms: "length ms = num_iterations env" and ls: "length ls = num_iterations env"
    and e: "events w' = events w @
         ([Call_build_linear_dataset N] @
          concat (map2 (iteration_events x y) [0..<num_iterations env] ms) @
          [Print_line ''Learned parameters:''] @ print_parameter_events ps) @
         ([Call_clear_param_store, Call_build_linear_dataset N] @
          concat (map2 (svi_iteration_events data) [0..<num_iterations env] ls)) @
         print_store_events st @
         (concat (map evaluation_events rs) @
          [Print_loss (mean_squared_error (averaged_predictions rs test_X) test_y)])"
    using notebook_result [OF v c, of env w] by blast
  have t: "training_steps (drop (length (events w)) (events w')) = num_iterations env"
    using filter_concat_map2 [OF ms, of is_optim_step "iteration_events x y" 1]
      filter_concat_map2 [OF ls, of is_optim_step "svi_iteration_events data" 0]
      filter_concat_map [of is_optim_step evaluation_events 0 rs]
    by (simp add: e training_steps_def)
  have i: "inference_steps (drop (length (events w)) (events w')) = num_iterations env"
    using filter_concat_map2 [OF ms, of is_svi_step "iteration_events x y" 0]
      filter_concat_map2 [OF ls, of is_svi_step "svi_iteration_events data" 1]
      filter_concat_map [of is_svi_step evaluation_events 0 rs]
    by (simp add: e inference_steps_def)
  show ?thesis
    using r t i by (simp add: num_iterations_def smoke_test_def)
qed

theorem two_training_loops_witness:
  "startswith ''0.3.0'' ''0.3.0'' \<and> (\<forall>g. draw_shapes demo_library N 1 (1 / 100) g)
   \<and> (\<exists>w'. notebook demo_library [''CI'' \<mapsto> ''true''] ''0.3.0'' demo_world = Inr ((), w')
        \<and> training_steps (events w') = 2 \<and> inference_steps (events w') = 2)"
proof -
  have v: "startswith ''0.3.0'' ''0.3.0''"
    by (simp add: startswith_def)
  have c: "\<forall>g. draw_shapes demo_library N 1 (1 / 100) g"
    by (simp add: demo_draw_shapes)
  from two_training_loops [OF v c, of "[''CI'' \<mapsto> ''true'']" demo_world] v c
  show ?thesis
    by (auto simp: demo_world_def)
qed

lemma seq_raises: "m w = Inl e \<Longrightarrow> seq m f w = Inl e"
  by (simp add: seq_def)






section \<open>The guide's argument, the validation, and runs of the two training functions\<close>

text \<open>
  C10. The guide does not read its argument: on one state of the generators and of the
  parameter store it returns the same result and leaves the same state for every two
  arguments, \<^verbatim>\<open>None\<close> included. Called with \<^verbatim>\<open>None\<close> on a store that holds nothing but
  parameters of the guide, it returns a regressor and leaves its four parameters
  registered.
\<close>

theorem guide_ignores_data:
  fixes lib :: "('g, 'o) library" and w :: "('g, 'o) world"
  shows "guide lib d1 w = guide lib d2 w
   \<and> (store_ok (param_store w) \<longrightarrow>
        (\<exists>r w'. guide lib None w = Inr (r, w') \<and> layer_shape r 1
           \<and> fst ` set (param_store w') = fst ` set (param_store w) \<union> set guide_parameter_names))"
proof (intro conjI impI)
  show "guide lib d1 w = guide lib d2 w"
    by (simp add: guide_def)
next
  assume "store_ok (param_store w)"
  from guide_result [OF this, of lib None]
  show "\<exists>r w'. guide lib None w = Inr (r, w') \<and> layer_shape r 1
           \<and> fst ` set (param_store w') = fst ` set (param_store w) \<union> set guide_parameter_names"
    by auto
qed

theorem guide_ignores_data_witness:
  "guide demo_library (Some [[1, 2]]) demo_world = guide demo_library None demo_world
   \<and> store_ok (param_store demo_world)
   \<and> (\<exists>r w'. guide demo_library None demo_world = Inr (r, w') \<and> layer_shape r 1
        \<and> fst ` set (param_store w') =
            {''guide_mean_weight'', ''guide_log_scale_weight'', ''guide_mean_bias'',
             ''guide_log_scale_bias''})"
proof -
  have s: "store_ok (param_store demo_world)"
    by (simp add: demo_world_def store_ok_def)
  from guide_ignores_data [of demo_library "Some [[1, 2]]" demo_world None] s
  show ?thesis
    by (auto simp: demo_world_def guide_parameter_names_def guide_param_shapes_def)
qed





section \<open>Storage and environment\<close>






























section \<open>State carried from one cell to the next\<close>

lemma alike_ret: "runs_alike P (ret x) P"
  by (simp add: runs_alike_def same_result_def ret_def)

lemma alike_raise: "runs_alike P (raise e) Q"
  by (simp add: runs_alike_def same_result_def raise_def)


lemma alike_assert: "runs_alike P (assert b) P"
  by (simp add: assert_def alike_ret alike_raise)














lemma stable_sampled:
  "stable P \<Longrightarrow> P w1 w2 \<Longrightarrow> P (w1\<lparr>sampled_reg_model := r\<rparr>) (w2\<lparr>sampled_reg_model := r\<rparr>)"
  by (simp add: stable_def)































end
